theory Spec2Isabelle
  imports Main "HOL-Library.Code_Target_Numeral"
begin

section \<open>JavaScript strings\<close>

text \<open>
  A JavaScript string is a sequence of UTF-16 code units. A code unit is a natural number
  (below 65536); \<open>str\<close> turns an ASCII literal into its code units. The three non-ASCII
  characters of the script (the degree sign 176, the en dash 8211 and the em dash 8212)
  are written as numbers.
\<close>

type_synonym jsstring = "nat list"

definition str :: "string \<Rightarrow> jsstring" where
  "str s = map of_char s"

text \<open>\<open>s.startsWith(p)\<close>, the test a literal pattern makes at one position.\<close>

fun startsWith :: "jsstring \<Rightarrow> jsstring \<Rightarrow> bool" where
  "startsWith s [] = True"
| "startsWith [] (p # ps) = False"
| "startsWith (c # cs) (p # ps) = (c = p \<and> startsWith cs ps)"

text \<open>\<open>s.includes(p)\<close>: the pattern starts at some position of \<open>s\<close>.\<close>

fun includesStr :: "jsstring \<Rightarrow> jsstring \<Rightarrow> bool" where
  "includesStr [] p = startsWith [] p"
| "includesStr (c # cs) p = (startsWith (c # cs) p \<or> includesStr cs p)"

text \<open>\<open>xs.join(sep)\<close>.\<close>

fun join :: "jsstring \<Rightarrow> jsstring list \<Rightarrow> jsstring" where
  "join sep [] = []"
| "join sep [x] = x"
| "join sep (x # y # ys) = x @ sep @ join sep (y # ys)"

text \<open>
  White space and line terminators of ECMAScript (what \<open>trim\<close>, \<open>parseInt\<close> and the
  regular expression class \<open>\s\<close> skip), the line terminators alone (what \<open>.\<close> does not
  match), and the decimal digits (\<open>\d\<close>).
\<close>

definition is_line_terminator :: "nat \<Rightarrow> bool" where
  "is_line_terminator c = (c = 10 \<or> c = 13 \<or> c = 8232 \<or> c = 8233)"

definition is_ws :: "nat \<Rightarrow> bool" where
  "is_ws c = (c = 9 \<or> c = 11 \<or> c = 12 \<or> c = 32 \<or> c = 160 \<or> c = 5760
     \<or> (8192 \<le> c \<and> c \<le> 8202) \<or> c = 8239 \<or> c = 8287 \<or> c = 12288 \<or> c = 65279
     \<or> is_line_terminator c)"

definition is_digit :: "nat \<Rightarrow> bool" where
  "is_digit c = (48 \<le> c \<and> c \<le> 57)"

definition trim :: "jsstring \<Rightarrow> jsstring" where
  "trim s = rev (dropWhile is_ws (rev (dropWhile is_ws s)))"

text \<open>A string is truthy when it is not empty; a missing property is falsy.\<close>

fun truthy :: "jsstring option \<Rightarrow> bool" where
  "truthy None = False"
| "truthy (Some s) = (s \<noteq> [])"

section \<open>The state catalog\<close>

text \<open>\<open>Object.keys(WEATHER_OFFICES)\<close>, in insertion order.\<close>

definition WEATHER_OFFICES :: "(jsstring \<times> jsstring) list" where
  "WEATHER_OFFICES =
    [(str ''Tennessee'', str ''Nashville, TN''),
     (str ''Mississippi'', str ''Jackson, MS''),
     (str ''Alabama'', str ''Birmingham, AL''),
     (str ''Georgia'', str ''Atlanta, GA''),
     (str ''Florida'', str ''Miami, FL''),
     (str ''North Carolina'', str ''Raleigh, NC''),
     (str ''South Carolina'', str ''Charleston, SC''),
     (str ''U.S. Virgin Islands'', str ''San Juan, PR'')]"

definition getStateCode :: "jsstring \<Rightarrow> jsstring" where
  "getStateCode state =
    (case map_of
       [(str ''Tennessee'', str ''TN''),
        (str ''Mississippi'', str ''MS''),
        (str ''Alabama'', str ''AL''),
        (str ''Georgia'', str ''GA''),
        (str ''Florida'', str ''FL''),
        (str ''North Carolina'', str ''NC''),
        (str ''South Carolina'', str ''SC''),
        (str ''U.S. Virgin Islands'', str ''VI'')] state of
       Some code \<Rightarrow> code
     | None \<Rightarrow> str ''US'')"

section \<open>Condition composer\<close>

text \<open>
  The fields of an alert that the script reads. \<open>expires\<close> is the time value of
  \<open>new Date(alert.properties.expires)\<close> in milliseconds, \<open>None\<close> for an invalid date
  (whose comparison with any time is false).
\<close>

record alert =
  event :: jsstring
  severity :: jsstring
  expires :: "int option"

definition isActive :: "int \<Rightarrow> alert \<Rightarrow> bool" where
  "isActive now a = (case expires a of None \<Rightarrow> False | Some t \<Rightarrow> t > now)"

definition activeAlerts :: "int \<Rightarrow> alert list \<Rightarrow> alert list" where
  "activeAlerts now alerts = filter (isActive now) alerts"

definition warnings :: "alert list \<Rightarrow> alert list" where
  "warnings active = filter (\<lambda>a. severity a = str ''Severe'' \<or> severity a = str ''Extreme''
      \<or> includesStr (event a) (str ''Warning'')) active"

definition watches :: "alert list \<Rightarrow> alert list" where
  "watches active = filter (\<lambda>a. includesStr (event a) (str ''Watch'')) active"

definition advisories :: "alert list \<Rightarrow> alert list" where
  "advisories active = filter (\<lambda>a. severity a = str ''Moderate''
      \<or> includesStr (event a) (str ''Advisory'')) active"

definition getSeasonalConditions :: "jsstring \<Rightarrow> bool \<Rightarrow> jsstring" where
  "getSeasonalConditions state isHotSeason =
    (if isHotSeason
     then str ''Monitor for heat stress during outdoor activities. Stay hydrated and seek air conditioning during peak heating hours. ''
     else str ''Typical seasonal weather patterns expected. Monitor for changing conditions. '')"

definition alertSentences :: "alert list \<Rightarrow> jsstring" where
  "alertSentences active =
    (if length active > 0 then
       (if length (warnings active) > 0
        then str ''Active '' @ join (str '', '') (map event (warnings active))
               @ str '' WARNINGS in effect. ''
        else [])
       @ (if length (watches active) > 0
          then join (str '', '') (map event (watches active)) @ str '' WATCHES in effect. ''
          else [])
       @ (if length (advisories active) > 0
          then join (str '', '') (map event (advisories active))
                 @ str '' ADVISORIES in effect. ''
          else [])
     else [])"

definition noHazards :: "jsstring \<Rightarrow> jsstring" where
  "noHazards state =
     str ''No significant weather hazards reported for '' @ state @ str '' at this time.''"

definition processAlerts :: "int \<Rightarrow> jsstring \<Rightarrow> alert list \<Rightarrow> bool \<Rightarrow> jsstring" where
  "processAlerts now state alerts isHotSeason =
    (let condition = alertSentences (activeAlerts now alerts)
                       @ getSeasonalConditions state isHotSeason
     in if condition \<noteq> [] then condition else noHazards state)"

definition generateFallbackConditions :: "jsstring \<Rightarrow> bool \<Rightarrow> jsstring" where
  "generateFallbackConditions state isHotSeason =
    (if isHotSeason then
       str ''Hot and humid conditions with ADVISORIES for heat index values near or above 100''
         @ [176] @ str ''F. ''
       @ (if state = str ''Florida''
          then str ''WATCHES for heavy rainfall and potential flash flooding. Scattered to numerous thunderstorms with frequent lightning and locally heavy rainfall. ''
          else if state = str ''Mississippi'' \<or> state = str ''Alabama''
          then str ''Isolated to scattered thunderstorms possible with frequent lightning and brief heavy downpours. Monitor for heat-related illnesses. ''
          else if state = str ''Georgia'' \<or> state = str ''South Carolina''
          then str ''Scattered afternoon thunderstorms with dangerous lightning and locally heavy rainfall. ''
          else if state = str ''Tennessee'' \<or> state = str ''North Carolina''
          then str ''ADVISORIES for scattered thunderstorms with lightning and brief heavy rainfall. ''
          else if state = str ''U.S. Virgin Islands''
          then str ''ADVISORIES for isolated showers and thunderstorms with dangerous lightning. ''
          else [])
     else
       str ''Seasonal temperatures expected for '' @ state @ str ''. ''
       @ (if state = str ''Florida'' \<or> state = str ''U.S. Virgin Islands''
          then str ''Mild temperatures with occasional shower activity. ''
          else str ''Monitor for potential winter weather impacts and changing conditions. ''))"

text \<open>
  What a request can give: \<open>fetch\<close> rejects, the response is not \<open>ok\<close>, reading the body
  throws (invalid JSON, or a body on which the first property access throws), or a body
  of the expected shape arrives.
\<close>

datatype 'a response = FetchFails | NotOk | BadBody | OkBody 'a

datatype js_error = FetchFailed | ApiReturned | BodyUnreadable | UnableToFetch | FileError

text \<open>Reading a response inside a \<open>try\<close>: every failure is a thrown error.\<close>

fun readOk :: "'a response \<Rightarrow> js_error + 'a option" where
  "readOk FetchFails = Inl FetchFailed"
| "readOk NotOk = Inr None"
| "readOk BadBody = Inl BodyUnreadable"
| "readOk (OkBody d) = Inr (Some d)"

text \<open>
  \<open>generateStateConditions\<close>: the body of its \<open>try\<close> (\<open>data.features || []\<close> is the
  list, empty when the property is missing), and the function with its \<open>catch\<close>.
\<close>

definition generateStateConditions_try ::
  "(jsstring \<Rightarrow> alert list option response) \<Rightarrow> int \<Rightarrow> jsstring \<Rightarrow> bool \<Rightarrow> js_error + jsstring" where
  "generateStateConditions_try fetchAlerts now state isHotSeason =
    (case readOk (fetchAlerts (getStateCode state)) of
       Inl e \<Rightarrow> Inl e
     | Inr None \<Rightarrow> Inl ApiReturned
     | Inr (Some features) \<Rightarrow>
         Inr (processAlerts now state (case features of None \<Rightarrow> [] | Some fs \<Rightarrow> fs) isHotSeason))"

definition generateStateConditions ::
  "(jsstring \<Rightarrow> alert list option response) \<Rightarrow> int \<Rightarrow> jsstring \<Rightarrow> bool \<Rightarrow> js_error + jsstring" where
  "generateStateConditions fetchAlerts now state isHotSeason =
    (case generateStateConditions_try fetchAlerts now state isHotSeason of
       Inl e \<Rightarrow> Inr (generateFallbackConditions state isHotSeason)
     | Inr c \<Rightarrow> Inr c)"

section \<open>Numbers\<close>

text \<open>
  \<open>parseInt(s)\<close> with no radix: leading white space is skipped, then an optional sign,
  then \<open>0x\<close> or \<open>0X\<close> selects radix 16, and the longest run of digits of the radix is
  read; \<open>None\<close> is \<open>NaN\<close> (no digit). Numbers are integers here; a JavaScript number is
  a double, which holds every integer below \<open>2 ^ 53\<close> exactly, so the model is the
  script on every input of at most 15 digits.
\<close>

definition isRadixDigit :: "nat \<Rightarrow> nat \<Rightarrow> bool" where
  "isRadixDigit radix c =
     ((48 \<le> c \<and> c \<le> 57 \<and> c - 48 < radix)
      \<or> (97 \<le> c \<and> c \<le> 122 \<and> c - 87 < radix)
      \<or> (65 \<le> c \<and> c \<le> 90 \<and> c - 55 < radix))"

definition digitValue :: "nat \<Rightarrow> nat" where
  "digitValue c = (if c \<le> 57 then c - 48 else if 97 \<le> c then c - 87 else c - 55)"

definition parseInt :: "jsstring \<Rightarrow> int option" where
  "parseInt s =
    (let s1 = dropWhile is_ws s;
         negative = startsWith s1 [45];
         s2 = (if startsWith s1 [43] \<or> startsWith s1 [45] then drop 1 s1 else s1);
         hex = (startsWith s2 (str ''0x'') \<or> startsWith s2 (str ''0X''));
         radix = (if hex then 16 else 10);
         s3 = (if hex then drop 2 s2 else s2);
         z = takeWhile (isRadixDigit radix) s3;
         mathInt = foldl (\<lambda>acc c. acc * radix + digitValue c) 0 z
     in if z = [] then None
        else Some (if negative then - int mathInt else int mathInt))"

text \<open>\<open>parseInt(s.replace('%', '')) || 0\<close>: the first \<open>%\<close> is removed; \<open>NaN\<close> gives 0.\<close>

definition chanceOf :: "jsstring \<Rightarrow> int" where
  "chanceOf s = (case parseInt (remove1 37 s) of None \<Rightarrow> 0 | Some n \<Rightarrow> n)"

text \<open>The decimal digits of a number, as a template literal prints an integer.\<close>

fun digits :: "nat \<Rightarrow> jsstring" where
  "digits n = (if n < 10 then [48 + n] else digits (n div 10) @ [48 + n mod 10])"

definition numToString :: "int \<Rightarrow> jsstring" where
  "numToString n = (if n < 0 then 45 # digits (nat (- n)) else digits (nat n))"

section \<open>Tropical outlook resolver\<close>

record tropical_outlook =
  outlook :: jsstring
  formation_chance :: jsstring

text \<open>One entry of \<open>data.areas\<close>: each property is missing or a string.\<close>

record area =
  chance2day :: "jsstring option"
  chance7day :: "jsstring option"
  area_text :: "jsstring option"

record storm =
  name :: "jsstring option"

text \<open>
  The body of \<open>data.areas.forEach\<close> in \<open>update-weather.js\<close>, on the three variables
  \<open>maxChance2Day\<close>, \<open>maxChance7Day\<close> and \<open>outlookText\<close>.
\<close>

fun areaStep :: "int \<times> int \<times> jsstring \<Rightarrow> area \<Rightarrow> int \<times> int \<times> jsstring" where
  "areaStep (maxChance2Day, maxChance7Day, outlookText) a =
    ((case chance2day a of
        Some s \<Rightarrow> if s \<noteq> [] then max maxChance2Day (chanceOf s) else maxChance2Day
      | None \<Rightarrow> maxChance2Day),
     (case chance7day a of
        Some s \<Rightarrow> if s \<noteq> [] then max maxChance7Day (chanceOf s) else maxChance7Day
      | None \<Rightarrow> maxChance7Day),
     (case area_text a of
        Some t \<Rightarrow> if t \<noteq> [] then outlookText @ t @ str '' '' else outlookText
      | None \<Rightarrow> outlookText))"

definition formationChance :: "int \<Rightarrow> int \<Rightarrow> jsstring" where
  "formationChance maxChance2Day maxChance7Day =
    (if maxChance7Day > 0 then numToString maxChance7Day @ str ''%''
     else if maxChance2Day > 0 then numToString maxChance2Day @ str ''%''
     else str ''0%'')"

definition structuredOutlook :: "area list \<Rightarrow> tropical_outlook" where
  "structuredOutlook areas =
    (case foldl areaStep (0, 0, []) areas of
       (maxChance2Day, maxChance7Day, outlookText) \<Rightarrow>
         \<lparr>outlook = (if trim outlookText \<noteq> [] then trim outlookText
                     else str ''The National Hurricane Center is monitoring the Atlantic basin for tropical development.''),
          formation_chance = formationChance maxChance2Day maxChance7Day\<rparr>)"

text \<open>
  The first source: the body of its \<open>try\<close>. \<open>Inr None\<close> means that the block ends
  without returning, and the next source is tried.
\<close>

definition nhcJson_try :: "area list option response \<Rightarrow> js_error + tropical_outlook option" where
  "nhcJson_try r =
    (case readOk r of
       Inl e \<Rightarrow> Inl e
     | Inr None \<Rightarrow> Inr None
     | Inr (Some None) \<Rightarrow> Inr None
     | Inr (Some (Some areas)) \<Rightarrow>
         if length areas > 0 then Inr (Some (structuredOutlook areas)) else Inr None)"

text \<open>
  The same block in the second copy of the script (\<open>part_000\<close>): one variable
  \<open>maxChance\<close> for both fields, the text of each area prefixed with its number, and a
  result only when \<open>maxChance > 0\<close>.
\<close>

fun areaStep_part000 :: "int \<times> jsstring \<times> nat \<Rightarrow> nat \<times> area \<Rightarrow> int \<times> jsstring \<times> nat" where
  "areaStep_part000 (maxChance, outlookText, disturbanceCount) (index, a) =
    (let m7 = (case chance7day a of
                 Some s \<Rightarrow> if s \<noteq> [] then max maxChance (chanceOf s) else maxChance
               | None \<Rightarrow> maxChance);
         m2 = (case chance2day a of
                 Some s \<Rightarrow> if s \<noteq> [] then max m7 (chanceOf s) else m7
               | None \<Rightarrow> m7)
     in (m2,
         (case area_text a of
            Some t \<Rightarrow> if t \<noteq> []
              then outlookText @ str ''Disturbance '' @ numToString (int (index + 1)) @ str '': ''
                     @ t @ str '' ''
              else outlookText
          | None \<Rightarrow> outlookText),
         disturbanceCount + 1))"

definition structuredOutlook_part000 :: "area list \<Rightarrow> tropical_outlook option" where
  "structuredOutlook_part000 areas =
    (case foldl areaStep_part000 (0, [], 0) (enumerate 0 areas) of
       (maxChance, outlookText, disturbanceCount) \<Rightarrow>
         if maxChance > 0 then
           Some \<lparr>outlook = (if trim outlookText \<noteq> [] then trim outlookText
                     else str ''The National Hurricane Center is monitoring ''
                            @ numToString (int disturbanceCount)
                            @ str '' disturbance(s) in the Atlantic basin for potential tropical development.''),
                 formation_chance = numToString maxChance @ str ''%''\<rparr>
         else None)"

subsection \<open>Regular expressions of the feed source\<close>

text \<open>
  A pattern character under the flag \<open>i\<close>: an ASCII letter matches itself in both
  cases, any other character only itself.
\<close>

definition matchesCI :: "nat \<Rightarrow> nat \<Rightarrow> bool" where
  "matchesCI p c = (c = p \<or> (97 \<le> p \<and> p \<le> 122 \<and> c + 32 = p) \<or> (65 \<le> p \<and> p \<le> 90 \<and> c = p + 32))"

fun startsWithCI :: "jsstring \<Rightarrow> jsstring \<Rightarrow> bool" where
  "startsWithCI s [] = True"
| "startsWithCI [] (p # ps) = False"
| "startsWithCI (c # cs) (p # ps) = (matchesCI p c \<and> startsWithCI cs ps)"

text \<open>
  A regular expression is given by its matcher at one position: \<open>m s = Some n\<close> when it
  matches the first \<open>n\<close> code units of \<open>s\<close>. \<open>s.match(/.../g)\<close> collects the matches from
  left to right, each search starting where the last match ended (one code unit further
  after an empty match); the empty list stands for \<open>null\<close>. \<open>s.replace(/.../g, r)\<close>
  with a replacement \<open>r\<close> free of \<open>$\<close> puts \<open>r\<close> in the place of each match.
\<close>

function globalMatch :: "(jsstring \<Rightarrow> nat option) \<Rightarrow> jsstring \<Rightarrow> jsstring list" where
  "globalMatch m [] = []"
| "globalMatch m (c # cs) =
    (case m (c # cs) of
       None \<Rightarrow> globalMatch m cs
     | Some n \<Rightarrow> if n = 0 then [] # globalMatch m cs
                else take n (c # cs) # globalMatch m (drop n (c # cs)))"
  by pat_completeness auto
termination
  by (relation "measure (\<lambda>(m, s). length s)") auto

function globalReplace :: "(jsstring \<Rightarrow> nat option) \<Rightarrow> jsstring \<Rightarrow> jsstring \<Rightarrow> jsstring" where
  "globalReplace m r [] = []"
| "globalReplace m r (c # cs) =
    (case m (c # cs) of
       None \<Rightarrow> c # globalReplace m r cs
     | Some n \<Rightarrow> if n = 0 then r @ c # globalReplace m r cs
                else r @ globalReplace m r (drop n (c # cs)))"
  by pat_completeness auto
termination
  by (relation "measure (\<lambda>(m, r, s). length s)") auto

text \<open>
  The first match of a regular expression without the flag \<open>g\<close>: the text before it,
  the match and the text after it.
\<close>

fun firstMatch :: "(jsstring \<Rightarrow> nat option) \<Rightarrow> jsstring \<Rightarrow> (jsstring \<times> jsstring \<times> jsstring) option" where
  "firstMatch m [] = (case m [] of None \<Rightarrow> None | Some n \<Rightarrow> Some ([], [], []))"
| "firstMatch m (c # cs) =
    (case m (c # cs) of
       Some n \<Rightarrow> Some ([], take n (c # cs), drop n (c # cs))
     | None \<Rightarrow> map_option (\<lambda>(pre, matched, post). (c # pre, matched, post))
                (firstMatch m cs))"

text \<open>
  \<open>/<description[^>]*>(.*?)<\/description>/gi\<close>: the opening name, everything up to the
  first \<open>>\<close>, then as few characters as possible, none of them a line terminator,
  up to the closing tag.
\<close>

fun lazyClose :: "jsstring \<Rightarrow> nat option" where
  "lazyClose [] = None"
| "lazyClose (c # cs) =
    (if startsWithCI (c # cs) (str ''</description>'') then Some 14
     else if is_line_terminator c then None
     else map_option Suc (lazyClose cs))"

definition descriptionAt :: "jsstring \<Rightarrow> nat option" where
  "descriptionAt s =
    (if startsWithCI s (str ''<description'') then
       (let attrs = takeWhile (\<lambda>c. c \<noteq> 62) (drop 12 s)
        in case drop (12 + length attrs) s of
             [] \<Rightarrow> None
           | gt # rest \<Rightarrow> map_option (\<lambda>n. 12 + length attrs + 1 + n) (lazyClose rest))
     else None)"

text \<open>\<open>/<[^>]*>/g\<close>: from a \<open><\<close> to the first \<open>>\<close> after it.\<close>

definition tagAt :: "jsstring \<Rightarrow> nat option" where
  "tagAt s =
    (case s of
       [] \<Rightarrow> None
     | c # r \<Rightarrow>
         if c = 60 \<and> length (takeWhile (\<lambda>x. x \<noteq> 62) r) < length r
         then Some (length (takeWhile (\<lambda>x. x \<noteq> 62) r) + 2)
         else None)"

text \<open>\<open>/(\d+)\s*%/g\<close>: digits, white space, a percent sign.\<close>

definition percentAt :: "jsstring \<Rightarrow> nat option" where
  "percentAt s =
    (let d = takeWhile is_digit s;
         w = takeWhile is_ws (drop (length d) s)
     in if d \<noteq> [] \<and> startsWith (drop (length d + length w) s) [37]
        then Some (length d + length w + 1)
        else None)"

subsection \<open>The sources\<close>

text \<open>
  The inner and the outer \<open>forEach\<close> of the feed source, on \<open>maxPercent\<close> and
  \<open>outlookText\<close>. (The match of the titles, \<open>outlookMatch\<close>, is not modelled:
  the script never reads it.)
\<close>

fun percentStep :: "jsstring \<Rightarrow> int \<times> jsstring \<Rightarrow> jsstring \<Rightarrow> int \<times> jsstring" where
  "percentStep cleanDesc (maxPercent, outlookText) m =
    (case parseInt (remove1 37 m) of
       None \<Rightarrow> (maxPercent, outlookText)
     | Some num \<Rightarrow>
         if num > maxPercent then (num, take 400 cleanDesc) else (maxPercent, outlookText))"

definition descStep :: "int \<times> jsstring \<Rightarrow> jsstring \<Rightarrow> int \<times> jsstring" where
  "descStep acc desc =
    (let cleanDesc = trim (globalReplace tagAt [] desc)
     in foldl (percentStep cleanDesc) acc (globalMatch percentAt cleanDesc))"

definition rssOutlook :: "jsstring \<Rightarrow> tropical_outlook option" where
  "rssOutlook xmlText =
    (let descMatch = globalMatch descriptionAt xmlText
     in if length descMatch > 0 then
          (case foldl descStep (0, []) descMatch of
             (maxPercent, outlookText) \<Rightarrow>
               if maxPercent > 0 \<or> outlookText \<noteq> [] then
                 Some \<lparr>outlook = (if outlookText \<noteq> [] then outlookText
                          else str ''The National Hurricane Center is monitoring disturbances in the Atlantic basin.''),
                       formation_chance = (if maxPercent > 0 then numToString maxPercent @ str ''%''
                          else str ''0%'')\<rparr>
               else None)
        else None)"

definition nhcRss_try :: "jsstring response \<Rightarrow> js_error + tropical_outlook option" where
  "nhcRss_try r =
    (case readOk r of
       Inl e \<Rightarrow> Inl e
     | Inr None \<Rightarrow> Inr None
     | Inr (Some xmlText) \<Rightarrow> Inr (rssOutlook xmlText))"

definition stormsOutlook :: "storm list \<Rightarrow> tropical_outlook" where
  "stormsOutlook activeStorms =
    \<lparr>outlook = str ''The National Hurricane Center is currently tracking ''
        @ numToString (int (length activeStorms)) @ str '' active system(s): ''
        @ join (str '', '') (map (\<lambda>s. case name s of
                                        Some n \<Rightarrow> if n \<noteq> [] then n else str ''Unnamed''
                                      | None \<Rightarrow> str ''Unnamed'') activeStorms)
        @ str ''. Monitor official forecasts for the latest information.'',
     formation_chance = str ''Active Systems''\<rparr>"

definition currentStorms_try :: "storm list option response \<Rightarrow> js_error + tropical_outlook option" where
  "currentStorms_try r =
    (case readOk r of
       Inl e \<Rightarrow> Inl e
     | Inr None \<Rightarrow> Inr None
     | Inr (Some None) \<Rightarrow> Inr None
     | Inr (Some (Some activeStorms)) \<Rightarrow>
         if length activeStorms > 0 then Inr (Some (stormsOutlook activeStorms)) else Inr None)"

text \<open>An inner \<open>try { ... } catch (error) { console.log(...) }\<close>: a thrown error ends the block.\<close>

fun caught :: "js_error + 'a option \<Rightarrow> 'a option" where
  "caught (Inl e) = None"
| "caught (Inr r) = r"

text \<open>The terminal fallback; \<open>month\<close> is \<open>new Date().getMonth()\<close>, 0 for January.\<close>

definition isHurricaneSeason :: "nat \<Rightarrow> bool" where
  "isHurricaneSeason month = (month \<ge> 5 \<and> month \<le> 10)"

definition seasonFallback :: "nat \<Rightarrow> tropical_outlook" where
  "seasonFallback month =
    (if isHurricaneSeason month then
       \<lparr>outlook = str ''Unable to retrieve current formation probabilities from NHC APIs. The National Hurricane Center continues to monitor the Atlantic basin. Visit nhc.noaa.gov for the most current tropical weather outlook.'',
        formation_chance = str ''Check NHC''\<rparr>
     else
       \<lparr>outlook = str ''Outside of peak hurricane season. No significant tropical activity expected in the Atlantic basin at this time.'',
        formation_chance = str ''0%''\<rparr>)"


definition seasonFallback_part001 :: "nat \<Rightarrow> tropical_outlook" where
  "seasonFallback_part001 month =
    (if isHurricaneSeason month then
       \<lparr>outlook = str ''National Weather Service tropical data temporarily unavailable via automated systems. During hurricane season, conditions can change rapidly and tropical development is possible.'',
        formation_chance = str ''Monitor NWS''\<rparr>
     else
       \<lparr>outlook = str ''Outside of peak hurricane season. No significant tropical activity expected in the Atlantic basin at this time.'',
        formation_chance = str ''0%''\<rparr>)"

text \<open>What the three requests of the resolver give.\<close>

record sources =
  nhcJson :: "area list option response"
  nhcRss :: "jsstring response"
  currentStorms :: "storm list option response"

text \<open>
  \<open>getTropicalOutlook\<close> of \<open>update-weather.js\<close>: the body of the outer \<open>try\<close>, and the
  function with the outer \<open>catch\<close>. \<open>Inl\<close> is a rejected promise.
\<close>

definition getTropicalOutlook_try :: "sources \<Rightarrow> nat \<Rightarrow> js_error + tropical_outlook" where
  "getTropicalOutlook_try src month =
    (case caught (nhcJson_try (nhcJson src)) of
       Some r \<Rightarrow> Inr r
     | None \<Rightarrow>
        (case caught (nhcRss_try (nhcRss src)) of
           Some r \<Rightarrow> Inr r
         | None \<Rightarrow>
            (case caught (currentStorms_try (currentStorms src)) of
               Some r \<Rightarrow> Inr r
             | None \<Rightarrow> Inr (seasonFallback month))))"

definition getTropicalOutlook :: "sources \<Rightarrow> nat \<Rightarrow> js_error + tropical_outlook" where
  "getTropicalOutlook src month =
    (case getTropicalOutlook_try src month of
       Inl e \<Rightarrow>
         Inr \<lparr>outlook = str ''Tropical weather outlook temporarily unavailable. Visit nhc.noaa.gov for official information.'',
              formation_chance = str ''Visit NHC''\<rparr>
     | Inr r \<Rightarrow> Inr r)"

subsection \<open>The resolver of the copy \<open>part_001\<close>\<close>

text \<open>
  \<open>s.split('\n')\<close>, and the test \<open>line.toLowerCase().includes(word)\<close> for a word of
  lower-case ASCII letters. Lower case is taken on the ASCII letters: the only other code
  units whose lower case has an ASCII letter are U+212A (\<open>k\<close>) and U+0130 (\<open>i\<close>
  followed by U+0307), and no word of the script has a \<open>k\<close> or ends in \<open>i\<close>.
\<close>

fun splitLines :: "jsstring \<Rightarrow> jsstring list" where
  "splitLines [] = [[]]"
| "splitLines (c # cs) =
    (if c = 10 then [] # splitLines cs
     else (case splitLines cs of
             [] \<Rightarrow> [[c]]
           | l # ls \<Rightarrow> (c # l) # ls))"

definition lowerAscii :: "nat \<Rightarrow> nat" where
  "lowerAscii c = (if 65 \<le> c \<and> c \<le> 90 then c + 32 else c)"

definition mentions :: "jsstring \<Rightarrow> jsstring \<Rightarrow> bool" where
  "mentions line word = includesStr (map lowerAscii line) word"

text \<open>\<open>/(\d+)\s*percent/i\<close>: digits, white space, the word in any case.\<close>

definition percentWordAt :: "jsstring \<Rightarrow> nat option" where
  "percentWordAt s =
    (let d = takeWhile is_digit s;
         w = takeWhile is_ws (drop (length d) s)
     in if d \<noteq> [] \<and> startsWithCI (drop (length d + length w) s) (str ''percent'')
        then Some (length d + length w + 7)
        else None)"

text \<open>
  \<open>parseNWSTropicalOutlook\<close>: the body of its loop at the index \<open>i\<close>, on the variables
  \<open>maxFormationChance\<close> and \<open>outlookText\<close>, and the function. A product text that is
  missing makes \<open>split\<close> throw, which the function catches: it returns \<open>null\<close>
  (\<open>None\<close>), as it does when it finds nothing.
\<close>

fun outlookLine :: "jsstring list \<Rightarrow> int \<times> jsstring \<Rightarrow> nat \<Rightarrow> int \<times> jsstring" where
  "outlookLine lines (maxFormationChance, outlookText) i =
    (if mentions (lines ! i) (str ''disturbance'') \<or> mentions (lines ! i) (str ''tropical'')
        \<or> mentions (lines ! i) (str ''development'')
     then
       (let contextText = trim (join (str '' '') (take 3 (drop i lines)));
            found = (case firstMatch percentWordAt contextText of
                       None \<Rightarrow> (maxFormationChance, outlookText)
                     | Some (pre, matched, post) \<Rightarrow>
                        (case parseInt (takeWhile is_digit matched) of
                           None \<Rightarrow> (maxFormationChance, outlookText)
                         | Some percentage \<Rightarrow>
                             if percentage > maxFormationChance
                             then (percentage, take 300 contextText @ str ''...'')
                             else (maxFormationChance, outlookText)))
        in if snd found = [] \<and> length contextText > 50
           then (fst found, take 300 contextText @ str ''...'')
           else found)
     else (maxFormationChance, outlookText))"

definition parseNWSTropicalOutlook :: "jsstring option \<Rightarrow> tropical_outlook option" where
  "parseNWSTropicalOutlook productText =
    (case productText of
       None \<Rightarrow> None
     | Some text \<Rightarrow>
        (case foldl (outlookLine (splitLines text)) (0, []) [0..<length (splitLines text)] of
           (maxFormationChance, outlookText) \<Rightarrow>
             if outlookText \<noteq> [] \<or> maxFormationChance > 0 then
               Some \<lparr>outlook = (if outlookText \<noteq> [] then outlookText
                        else str ''The National Weather Service is monitoring tropical activity in the Atlantic basin.''),
                     formation_chance = (if maxFormationChance > 0
                        then numToString maxFormationChance @ str ''%'' else str ''Low'')\<rparr>
             else None))"

text \<open>
  \<open>processTropicalAlerts\<close>. The areas are the elements of a \<open>Set\<close>, in the order of
  their first insertion.
\<close>

record tropical_alert =
  t_event :: jsstring
  t_areaDesc :: jsstring
  t_expires :: "int option"

definition processTropicalAlerts :: "int \<Rightarrow> tropical_alert list \<Rightarrow> tropical_outlook option" where
  "processTropicalAlerts now alerts =
    (let active = filter (\<lambda>a. case t_expires a of None \<Rightarrow> False | Some t \<Rightarrow> t > now) alerts
     in if length active > 0 then
          Some \<lparr>outlook = str ''Active tropical weather alerts: ''
                   @ join (str '', '') (map t_event active)
                   @ str '' affecting ''
                   @ join (str '', '') (rev (remdups (rev (map t_areaDesc active))))
                   @ str ''. Monitor National Weather Service for updates and follow all evacuation orders.'',
                formation_chance = str ''Active System''\<rparr>
        else None)"

text \<open>
  \<open>extractTropicalFromAFD\<close> and \<open>extractTropicalFromMarine\<close>: the first line that
  mentions one of the words and whose context is long enough ends the loop.
\<close>

definition afdContext :: "jsstring list \<Rightarrow> nat \<Rightarrow> jsstring" where
  "afdContext lines i =
     trim (join (str '' '') (take (min (length lines) (i + 4) - (i - 2)) (drop (i - 2) lines)))"

definition extractTropicalFromAFD :: "jsstring option \<Rightarrow> tropical_outlook option" where
  "extractTropicalFromAFD productText =
    (case productText of
       None \<Rightarrow> None
     | Some text \<Rightarrow>
        (case find (\<lambda>i. (mentions (splitLines text ! i) (str ''tropical'')
                          \<or> mentions (splitLines text ! i) (str ''hurricane'')
                          \<or> mentions (splitLines text ! i) (str ''depression'')
                          \<or> mentions (splitLines text ! i) (str ''disturbance''))
                        \<and> length (afdContext (splitLines text) i) > 100)
                 [0..<length (splitLines text)] of
           None \<Rightarrow> None
         | Some i \<Rightarrow>
            (let tropicalContent = take 400 (afdContext (splitLines text) i) @ str ''...''
             in Some \<lparr>outlook = tropicalContent,
                      formation_chance =
                        (case firstMatch percentWordAt tropicalContent of
                           None \<Rightarrow> str ''Monitor''
                         | Some (pre, matched, post) \<Rightarrow>
                             takeWhile is_digit matched @ str ''%'')\<rparr>)))"

definition marineContext :: "jsstring list \<Rightarrow> nat \<Rightarrow> jsstring" where
  "marineContext lines i =
     trim (join (str '' '') (take (min (length lines) (i + 3) - (i - 1)) (drop (i - 1) lines)))"

definition extractTropicalFromMarine :: "jsstring option \<Rightarrow> tropical_outlook option" where
  "extractTropicalFromMarine productText =
    (case productText of
       None \<Rightarrow> None
     | Some text \<Rightarrow>
        (case find (\<lambda>i. (mentions (splitLines text ! i) (str ''tropical'')
                          \<or> mentions (splitLines text ! i) (str ''cyclone'')
                          \<or> mentions (splitLines text ! i) (str ''storm''))
                        \<and> length (marineContext (splitLines text) i) > 80)
                 [0..<length (splitLines text)] of
           None \<Rightarrow> None
         | Some i \<Rightarrow>
             Some \<lparr>outlook = take 300 (marineContext (splitLines text) i) @ str ''...'',
                   formation_chance = str ''See Marine Forecast''\<rparr>))"

text \<open>
  A list of products and the request for one of them: \<open>listing\<close> gives the \<open>@id\<close> of
  each entry of \<open>data['@graph']\<close> (\<open>None\<close> when the property is missing), \<open>product\<close>
  the answer to the request for an \<open>@id\<close>, whose body is \<open>productData.productText\<close>
  (\<open>None\<close> when it is missing). \<open>productText_try\<close> is the part that three of the four
  sources share: \<open>Inr None\<close> when no product text is reached.
\<close>

record product_feed =
  listing :: "jsstring list option response"
  product :: "jsstring \<Rightarrow> jsstring option response"

definition productText_try :: "product_feed \<Rightarrow> js_error + jsstring option option" where
  "productText_try feed =
    (case readOk (listing feed) of
       Inl e \<Rightarrow> Inl e
     | Inr None \<Rightarrow> Inr None
     | Inr (Some None) \<Rightarrow> Inr None
     | Inr (Some (Some [])) \<Rightarrow> Inr None
     | Inr (Some (Some (latest # others))) \<Rightarrow>
        (case readOk (product feed latest) of
           Inl e \<Rightarrow> Inl e
         | Inr None \<Rightarrow> Inr None
         | Inr (Some productText) \<Rightarrow> Inr (Some productText)))"

text \<open>
  The bodies of the four inner \<open>try\<close> blocks. \<open>Inr None\<close>: the block ends without
  returning; \<open>Inr (Some r)\<close>: the function returns \<open>r\<close>, which is \<open>null\<close> when
  \<open>r = None\<close>. The first two blocks return what their helper gives; the last two
  return it only when it is not \<open>null\<close>.
\<close>

definition twoProducts_try :: "product_feed \<Rightarrow> js_error + tropical_outlook option option" where
  "twoProducts_try feed =
    (case productText_try feed of
       Inl e \<Rightarrow> Inl e
     | Inr None \<Rightarrow> Inr None
     | Inr (Some productText) \<Rightarrow> Inr (Some (parseNWSTropicalOutlook productText)))"

definition tropicalAlerts_try ::
  "int \<Rightarrow> tropical_alert list option response \<Rightarrow> js_error + tropical_outlook option option" where
  "tropicalAlerts_try now r =
    (case readOk r of
       Inl e \<Rightarrow> Inl e
     | Inr None \<Rightarrow> Inr None
     | Inr (Some None) \<Rightarrow> Inr None
     | Inr (Some (Some features)) \<Rightarrow>
         if length features > 0 then Inr (Some (processTropicalAlerts now features)) else Inr None)"

definition miamiAFD_try :: "product_feed \<Rightarrow> js_error + tropical_outlook option option" where
  "miamiAFD_try feed =
    (case productText_try feed of
       Inl e \<Rightarrow> Inl e
     | Inr None \<Rightarrow> Inr None
     | Inr (Some productText) \<Rightarrow>
        (case extractTropicalFromAFD productText of
           None \<Rightarrow> Inr None
         | Some tropicalInfo \<Rightarrow> Inr (Some (Some tropicalInfo))))"

definition highSeas_try :: "product_feed \<Rightarrow> js_error + tropical_outlook option option" where
  "highSeas_try feed =
    (case productText_try feed of
       Inl e \<Rightarrow> Inl e
     | Inr None \<Rightarrow> Inr None
     | Inr (Some productText) \<Rightarrow>
        (case extractTropicalFromMarine productText of
           None \<Rightarrow> Inr None
         | Some tropicalInfo \<Rightarrow> Inr (Some (Some tropicalInfo))))"

record sources_part001 =
  twoProducts :: product_feed
  tropicalAlerts :: "tropical_alert list option response"
  miamiAFD :: product_feed
  highSeas :: product_feed

text \<open>
  \<open>getTropicalOutlook\<close> of \<open>part_001\<close>: the body of the outer \<open>try\<close>, and the function
  with the outer \<open>catch\<close>. The result is an outlook or \<open>null\<close>.
\<close>

definition getTropicalOutlook_part001_try ::
  "sources_part001 \<Rightarrow> int \<Rightarrow> nat \<Rightarrow> js_error + tropical_outlook option" where
  "getTropicalOutlook_part001_try src now month =
    (case caught (twoProducts_try (twoProducts src)) of
       Some r \<Rightarrow> Inr r
     | None \<Rightarrow>
        (case caught (tropicalAlerts_try now (tropicalAlerts src)) of
           Some r \<Rightarrow> Inr r
         | None \<Rightarrow>
            (case caught (miamiAFD_try (miamiAFD src)) of
               Some r \<Rightarrow> Inr r
             | None \<Rightarrow>
                (case caught (highSeas_try (highSeas src)) of
                   Some r \<Rightarrow> Inr r
                 | None \<Rightarrow> Inr (Some (seasonFallback_part001 month))))))"

definition getTropicalOutlook_part001 ::
  "sources_part001 \<Rightarrow> int \<Rightarrow> nat \<Rightarrow> js_error + tropical_outlook option" where
  "getTropicalOutlook_part001 src now month =
    (case getTropicalOutlook_part001_try src now month of
       Inl e \<Rightarrow>
         Inr (Some \<lparr>outlook = str ''Tropical weather information temporarily unavailable. Monitor local National Weather Service offices for current conditions.'',
                    formation_chance = str ''Check NWS''\<rparr>)
     | Inr r \<Rightarrow> Inr r)"

section \<open>Report renderer\<close>

text \<open>
  \<open>s.replace(/t/g, r)\<close> for a literal \<open>t\<close>, and the chain of six replacements that
  \<open>generateReport\<close> applies to a condition string, first rule first.
\<close>

definition literalAt :: "jsstring \<Rightarrow> jsstring \<Rightarrow> nat option" where
  "literalAt t s = (if startsWith s t then Some (length t) else None)"

definition replaceAll :: "jsstring \<Rightarrow> jsstring \<Rightarrow> jsstring \<Rightarrow> jsstring" where
  "replaceAll t r s = globalReplace (literalAt t) r s"

definition highlightRules :: "(jsstring \<times> jsstring) list" where
  \<open>highlightRules =
    [(str ''WARNINGS'', str ''<span class="warning">WARNINGS</span>''),
     (str ''WATCHES'', str ''<span class="watch">WATCHES</span>''),
     (str ''ADVISORIES'', str ''<span class="advisory">ADVISORIES</span>''),
     (str ''frequent lightning'', str ''<strong>frequent lightning</strong>''),
     (str ''dangerous lightning'', str ''<strong>dangerous lightning</strong>''),
     (str ''cloud-to-ground lightning'', str ''<strong>cloud-to-ground lightning</strong>'')]\<close>

definition applyRules :: "(jsstring \<times> jsstring) list \<Rightarrow> jsstring \<Rightarrow> jsstring" where
  "applyRules rules s = foldl (\<lambda>acc (t, r). replaceAll t r acc) s rules"

definition highlight :: "jsstring \<Rightarrow> jsstring" where
  "highlight s = applyRules highlightRules s"

text \<open>
  The object that \<open>fetchWeatherConditions\<close> builds: one property for each state and the
  property \<open>tropical\<close>.
\<close>

record weather_data =
  conditions :: "jsstring \<Rightarrow> jsstring option"
  tropical :: "tropical_outlook option"

definition tropicalOutlookText :: "weather_data \<Rightarrow> jsstring" where
  "tropicalOutlookText weatherData =
    (case tropical weatherData of
       Some t \<Rightarrow> if outlook t \<noteq> [] then outlook t else str ''Tropical outlook not available.''
     | None \<Rightarrow> str ''Tropical outlook not available.'')"

definition tropicalFormationChance :: "weather_data \<Rightarrow> jsstring" where
  "tropicalFormationChance weatherData =
    (case tropical weatherData of
       Some t \<Rightarrow> if formation_chance t \<noteq> [] then formation_chance t else str ''N/A''
     | None \<Rightarrow> str ''N/A'')"

text \<open>
  The three template literals of \<open>generateReport\<close>. \<open>checkTime\<close>, \<open>startDate\<close> and
  \<open>endDate\<close> are the strings that the locale formatting of the clock gives.
\<close>

definition reportHeader :: "weather_data \<Rightarrow> jsstring \<Rightarrow> jsstring \<Rightarrow> jsstring \<Rightarrow> jsstring" where
  \<open>reportHeader weatherData checkTime startDate endDate =
      str ''\<newline>''
      @ str ''        <div class="weather-check-time">Weather.gov map checked at ''
      @ checkTime
      @ str ''. NWS office verification completed for all SECAR state offices.</div>\<newline>''
      @ str ''        \<newline>''
      @ str ''        <div class="date-range">''
      @ startDate
      @ str '' ''
      @ [8211]
      @ str '' ''
      @ endDate
      @ str ''</div>\<newline>''
      @ str ''        \<newline>''
      @ str ''        <div class="tropical-outlook">\<newline>''
      @ str ''            <h3>Tropical Weather Outlook</h3>\<newline>''
      @ str ''            <p>''
      @ tropicalOutlookText weatherData
      @ str ''</p>\<newline>''
      @ str ''            <div class="formation-chance">\<newline>''
      @ str ''                <div class="formation-badge">\<newline>''
      @ str ''                    Formation Chance: <span class="formation-percentage">''
      @ tropicalFormationChance weatherData
      @ str ''</span>\<newline>''
      @ str ''                </div>\<newline>''
      @ str ''            </div>\<newline>''
      @ str ''        </div>\<newline>''
      @ str ''        \<newline>''
      @ str ''        <div class="section-title">Severe Weather Threats (5-Day Outlook)</div>\<newline>''
      @ str ''    ''\<close>

definition stateReport :: "jsstring \<Rightarrow> jsstring \<Rightarrow> jsstring" where
  \<open>stateReport state stateCondition =
      str ''\<newline>''
      @ str ''                <div class="state-report">\<newline>''
      @ str ''                    <span class="state-name">''
      @ state
      @ str '':</span> \<newline>''
      @ str ''                    <span class="state-conditions">''
      @ stateCondition
      @ str ''</span>\<newline>''
      @ str ''                </div>\<newline>''
      @ str ''            ''\<close>

definition reportFooter :: "jsstring" where
  \<open>reportFooter =
      str ''\<newline>''
      @ str ''        <div class="recommendations">\<newline>''
      @ str ''            <div class="section-title">Recommendations</div>\<newline>''
      @ str ''            \<newline>''
      @ str ''            <h4>Immediate Actions</h4>\<newline>''
      @ str ''            <ul>\<newline>''
      @ str ''                <li>Follow all local <span class="warning">WARNINGS</span>, <span class="watch">WATCHES</span>, and <span class="advisory">ADVISORIES</span> for heat, thunderstorms, and flooding.</li>\<newline>''
      @ str ''                <li>Monitor local conditions for rapidly developing thunderstorms, especially during peak heating hours.</li>\<newline>''
      @ str ''                <li>Practice lightning safety: move indoors immediately when thunder is heard; avoid open fields, water, and tall objects.</li>\<newline>''
      @ str ''                <li>Never drive through flooded roadways''
      @ [8212]
      @ str ''Turn Around, Don't Drown.</li>\<newline>''
      @ str ''                <li>Stay hydrated and limit outdoor activity during periods of excessive heat.</li>\<newline>''
      @ str ''            </ul>\<newline>''
      @ str ''            \<newline>''
      @ str ''            <h4>5-Day Monitoring</h4>\<newline>''
      @ str ''            <ul>\<newline>''
      @ str ''                <li>Monitor NWS local offices for updated <span class="warning">WARNINGS</span>, <span class="watch">WATCHES</span>, and <span class="advisory">ADVISORIES</span>.</li>\<newline>''
      @ str ''                <li>Track NHC Tropical Weather Outlook updates for any changes in tropical development probability.</li>\<newline>''
      @ str ''                <li>Monitor river and stream levels in flood-prone areas, especially after heavy rainfall.</li>\<newline>''
      @ str ''                <li>Remain alert for rapidly changing weather conditions, especially during holiday events and outdoor gatherings.</li>\<newline>''
      @ str ''            </ul>\<newline>''
      @ str ''        </div>\<newline>''
      @ str ''        \<newline>''
      @ str ''        <div class="sources">Sources: NWS local offices, National Hurricane Center, NOAA.</div>\<newline>''
      @ str ''    ''\<close>

text \<open>The body of \<open>Object.keys(WEATHER_OFFICES).forEach\<close>, on the variable \<open>report\<close>.\<close>

definition stateStep :: "weather_data \<Rightarrow> jsstring \<Rightarrow> jsstring \<Rightarrow> jsstring" where
  "stateStep weatherData report state =
    (case conditions weatherData state of
       Some c \<Rightarrow> if c \<noteq> [] then report @ stateReport state (highlight c) else report
     | None \<Rightarrow> report)"

definition generateReport :: "weather_data \<Rightarrow> jsstring \<Rightarrow> jsstring \<Rightarrow> jsstring \<Rightarrow> jsstring" where
  "generateReport weatherData timeLabel startDate endDate =
    foldl (stateStep weatherData)
      (reportHeader weatherData (timeLabel @ str '' EDT'') startDate endDate)
      (map fst WEATHER_OFFICES)
    @ reportFooter"

section \<open>Fetching the conditions\<close>

text \<open>
  Everything outside the script that one run reads: the clock (the month and the time
  value of \<open>new Date()\<close>, and its formatted strings), the answers to the requests, the
  content of \<open>index.html\<close> (\<open>None\<close> when it cannot be read) and whether it can be
  written.
\<close>

record world =
  w_month :: nat
  w_now :: int
  w_alerts :: "jsstring \<Rightarrow> alert list option response"
  w_tropical :: sources
  w_timeLabel :: jsstring
  w_startDate :: jsstring
  w_endDate :: jsstring
  w_updateTime :: jsstring
  w_indexHtml :: "jsstring option"
  w_writable :: bool

definition isHotSeason :: "nat \<Rightarrow> bool" where
  "isHotSeason month = (month \<ge> 4 \<and> month \<le> 9)"

text \<open>One round of the \<open>for\<close> loop: \<open>conditions[state] = ...\<close>, with its \<open>catch\<close>.\<close>

definition stateConditions :: "world \<Rightarrow> jsstring \<Rightarrow> jsstring" where
  "stateConditions w state =
    (case generateStateConditions (w_alerts w) (w_now w) state (isHotSeason (w_month w)) of
       Inl e \<Rightarrow> generateFallbackConditions state (isHotSeason (w_month w))
     | Inr c \<Rightarrow> c)"

definition fetchWeatherConditions_try :: "world \<Rightarrow> js_error + weather_data" where
  "fetchWeatherConditions_try w =
    (let conds = foldl (\<lambda>m state. m(state \<mapsto> stateConditions w state)) Map.empty
                   (map fst WEATHER_OFFICES)
     in case getTropicalOutlook (w_tropical w) (w_month w) of
          Inl e \<Rightarrow> Inl e
        | Inr t \<Rightarrow> Inr \<lparr>conditions = conds, tropical = Some t\<rparr>)"

definition fetchWeatherConditions :: "world \<Rightarrow> js_error + weather_data" where
  "fetchWeatherConditions w =
    (case fetchWeatherConditions_try w of
       Inl e \<Rightarrow> Inl UnableToFetch
     | Inr weatherData \<Rightarrow> Inr weatherData)"

section \<open>File publisher\<close>

text \<open>
  \<open>/<div id="reportOutput" class="report-text">[\s\S]*?<\/div>/\<close>: the opening tag, then
  as few code units as possible up to a closing \<open></div>\<close>; and \<open>/Loading\.\.\./\<close>.
\<close>

definition placeholderOpen :: jsstring where
  \<open>placeholderOpen = str ''<div id="reportOutput" class="report-text">''\<close>

definition divClose :: jsstring where
  "divClose = str ''</div>''"

fun lazyUntil :: "jsstring \<Rightarrow> jsstring \<Rightarrow> nat option" where
  "lazyUntil lit [] = (if lit = [] then Some 0 else None)"
| "lazyUntil lit (c # cs) =
    (if startsWith (c # cs) lit then Some (length lit) else map_option Suc (lazyUntil lit cs))"

definition placeholderAt :: "jsstring \<Rightarrow> nat option" where
  "placeholderAt s =
    (if startsWith s placeholderOpen
     then map_option (\<lambda>n. length placeholderOpen + n)
            (lazyUntil divClose (drop (length placeholderOpen) s))
     else None)"

definition loadingAt :: "jsstring \<Rightarrow> nat option" where
  "loadingAt s = literalAt (str ''Loading...'') s"

text \<open>
  The replacement text of \<open>String.prototype.replace\<close> for a pattern without capture
  groups: \<open>$$\<close> is a dollar sign, \<open>$&\<close> the match, \<open>$`\<close> the text before
  the match, \<open>$'\<close> the text after it; any other \<open>$\<close> stands for itself.
\<close>

fun getSubstitution :: "jsstring \<Rightarrow> jsstring \<Rightarrow> jsstring \<Rightarrow> jsstring \<Rightarrow> jsstring" where
  "getSubstitution matched pre post [] = []"
| "getSubstitution matched pre post [c] = [c]"
| "getSubstitution matched pre post (c # d # r) =
    (if c = 36 then
       (if d = 36 then 36 # getSubstitution matched pre post r
        else if d = 38 then matched @ getSubstitution matched pre post r
        else if d = 96 then pre @ getSubstitution matched pre post r
        else if d = 39 then post @ getSubstitution matched pre post r
        else 36 # getSubstitution matched pre post (d # r))
     else c # getSubstitution matched pre post (d # r))"

definition replaceFirst :: "(jsstring \<Rightarrow> nat option) \<Rightarrow> jsstring \<Rightarrow> jsstring \<Rightarrow> jsstring" where
  "replaceFirst m replacement s =
    (case firstMatch m s of
       None \<Rightarrow> s
     | Some (pre, matched, post) \<Rightarrow>
         pre @ getSubstitution matched pre post replacement @ post)"

text \<open>The two chained replacements of \<open>updateHtmlFile\<close>.\<close>

definition replacePlaceholder :: "jsstring \<Rightarrow> jsstring \<Rightarrow> jsstring" where
  "replacePlaceholder htmlTemplate reportHtml =
     replaceFirst placeholderAt (placeholderOpen @ reportHtml @ divClose) htmlTemplate"

definition updatedHtml :: "jsstring \<Rightarrow> jsstring \<Rightarrow> jsstring \<Rightarrow> jsstring" where
  "updatedHtml htmlTemplate reportHtml updateTime =
     replaceFirst loadingAt (str ''Last Updated: '' @ updateTime)
       (replacePlaceholder htmlTemplate reportHtml)"





text \<open>
  \<open>updateHtmlFile\<close>: the run either ends in \<open>process.exit(1)\<close> or has written the new
  content of \<open>index.html\<close> and logged its success.
\<close>

datatype outcome = Exit1 | Written jsstring

definition updateHtmlFile :: "world \<Rightarrow> outcome" where
  "updateHtmlFile w =
    (case fetchWeatherConditions w of
       Inl e \<Rightarrow> Exit1
     | Inr weatherData \<Rightarrow>
        (let reportHtml = generateReport weatherData (w_timeLabel w) (w_startDate w) (w_endDate w)
         in case w_indexHtml w of
              None \<Rightarrow> Exit1
            | Some htmlTemplate \<Rightarrow>
                if w_writable w
                then Written (updatedHtml htmlTemplate reportHtml (w_updateTime w))
                else Exit1))"

section \<open>Notions used in the statements and proofs\<close>

text \<open>
  A source fails when its request is rejected, its response is not \<open>ok\<close> or its body
  cannot be read.
\<close>

fun failed :: "'a response \<Rightarrow> bool" where
  "failed FetchFails = True"
| "failed NotOk = True"
| "failed BadBody = True"
| "failed (OkBody d) = False"

text \<open>
  The probability that a field of an area contributes: the parsed number of a present,
  non-empty string, nothing (0, the initial maximum) otherwise. A field is exact when its
  number is one that a double holds exactly.
\<close>

definition fieldChance :: "jsstring option \<Rightarrow> int" where
  "fieldChance f = (case f of None \<Rightarrow> 0 | Some s \<Rightarrow> if s \<noteq> [] then chanceOf s else 0)"

definition exactField :: "jsstring option \<Rightarrow> bool" where
  "exactField f = (case f of None \<Rightarrow> True | Some s \<Rightarrow> length s \<le> 15)"



text \<open>
  The number of positions of \<open>s\<close> at which the literal \<open>p\<close> occurs.
\<close>

fun countOcc :: "jsstring \<Rightarrow> jsstring \<Rightarrow> nat" where
  "countOcc p [] = (if p = [] then 1 else 0)"
| "countOcc p (c # cs) = (if startsWith (c # cs) p then 1 else 0) + countOcc p cs"

text \<open>
  Two strings clash when they differ at a position that both have; then no string starts
  with both. \<open>blocks t u\<close>: the literal \<open>t\<close> clashes with every non-empty suffix of
  \<open>u\<close>, so that no occurrence of \<open>t\<close> starts inside \<open>u\<close>, whatever follows \<open>u\<close>.
  A rule is compatible with another one when neither target can start inside the other
  target or inside the other replacement, and the replacement starts with a code unit
  that the target does not have.
\<close>

fun clash :: "jsstring \<Rightarrow> jsstring \<Rightarrow> bool" where
  "clash (a # as) (b # bs) = (a \<noteq> b \<or> clash as bs)"
| "clash as bs = False"

fun blocks :: "jsstring \<Rightarrow> jsstring \<Rightarrow> bool" where
  "blocks t [] = True"
| "blocks t (c # cs) = (clash t (c # cs) \<and> blocks t cs)"

definition compatible :: "jsstring \<times> jsstring \<Rightarrow> jsstring \<times> jsstring \<Rightarrow> bool" where
  "compatible new old =
    (fst new \<noteq> [] \<and> fst old \<noteq> [] \<and> snd old \<noteq> [] \<and> hd (snd old) \<notin> set (fst new)
     \<and> blocks (fst new) (snd old) \<and> blocks (fst old) (fst new) \<and> blocks (fst new) (tl (fst old)))"

text \<open>
  The markup that opens a state block of the report, and the markup that names its state.
\<close>

definition stateBlockOpen :: jsstring where
  \<open>stateBlockOpen = str ''<div class="state-report">''\<close>

definition stateNameTag :: "jsstring \<Rightarrow> jsstring" where
  \<open>stateNameTag state = str ''<span class="state-name">'' @ state @ str '':</span>''\<close>

text \<open>
  One pass over a string with all rules at once: at each position the first rule whose
  target starts there puts its replacement, and the pass continues after the target.
\<close>

function scan :: "(jsstring \<times> jsstring) list \<Rightarrow> jsstring \<Rightarrow> jsstring" where
  "scan rules [] = []"
| "scan rules (c # cs) =
    (case find (\<lambda>rule. fst rule \<noteq> [] \<and> startsWith (c # cs) (fst rule)) rules of
       Some rule \<Rightarrow> snd rule @ scan rules (drop (length (fst rule)) (c # cs))
     | None \<Rightarrow> c # scan rules cs)"
  by pat_completeness auto
termination
proof (relation "measure (\<lambda>(rules, s). length s)")
  show "wf (measure (\<lambda>(rules, s). length s))" by simp
next
  fix rules :: "(jsstring \<times> jsstring) list" and c :: nat and cs :: jsstring
  show "((rules, cs), (rules, c # cs)) \<in> measure (\<lambda>(rules, s). length s)" by simp
next
  fix rules :: "(jsstring \<times> jsstring) list" and c :: nat and cs :: jsstring and rule
  assume "find (\<lambda>rule. fst rule \<noteq> [] \<and> startsWith (c # cs) (fst rule)) rules = Some rule"
  then have "fst rule \<noteq> []" by (auto simp: find_Some_iff)
  then show "((rules, drop (length (fst rule)) (c # cs)), (rules, c # cs)) \<in> measure (\<lambda>(rules, s). length s)"
    by simp
qed

section \<open>Properties of the condition composer\<close>

lemma startsWith_append: "startsWith (p @ r) p"
  by (induction p) simp_all

lemma isActive_expired: "expires a = Some t \<Longrightarrow> t \<le> now \<Longrightarrow> \<not> isActive now a"
  by (simp add: isActive_def)

text \<open>
  C7. An alert whose expiry is at or before the current time (the boundary included) is
  in none of the three groups: it is not among the active alerts that the groups are
  filtered from, and \<open>processAlerts\<close> gives the same string with the alert removed
  from its input.
\<close>

theorem expired_alerts_excluded:
  assumes "a \<in> set alerts" and "expires a = Some t" and "t \<le> now"
  shows "a \<notin> set (activeAlerts now alerts)
    \<and> a \<notin> set (warnings (activeAlerts now alerts))
    \<and> a \<notin> set (watches (activeAlerts now alerts))
    \<and> a \<notin> set (advisories (activeAlerts now alerts))
    \<and> processAlerts now state alerts hot = processAlerts now state (removeAll a alerts) hot"
proof -
  have na: "\<not> isActive now a" using assms(2,3) by (rule isActive_expired)
  have eq: "activeAlerts now (removeAll a alerts) = activeAlerts now alerts"
    unfolding activeAlerts_def using na by (induction alerts) auto
  show ?thesis using na eq
    by (simp add: activeAlerts_def warnings_def watches_def advisories_def processAlerts_def)
qed

theorem expired_alerts_excluded_witness:
  "\<lparr>event = str ''Flood Warning'', severity = str ''Severe'', expires = Some 5\<rparr>
      \<notin> set (warnings (activeAlerts 5 [\<lparr>event = str ''Flood Warning'', severity = str ''Severe'', expires = Some 5\<rparr>]))
   \<and> processAlerts 5 (str ''Florida'') [\<lparr>event = str ''Flood Warning'', severity = str ''Severe'', expires = Some 5\<rparr>] False
      = processAlerts 5 (str ''Florida'') [] False"
  using expired_alerts_excluded [of "\<lparr>event = str ''Flood Warning'', severity = str ''Severe'', expires = Some 5\<rparr>"
      "[\<lparr>event = str ''Flood Warning'', severity = str ''Severe'', expires = Some 5\<rparr>]" 5 5 "str ''Florida''" False]
  by simp

text \<open>
  C2, as the script has it. With alerts fetched, none of them active, and outside the hot
  season, \<open>generateStateConditions\<close> returns the seasonal sentence, which does not name
  the state; it does not return the sentence "No significant weather hazards reported
  for ... at this time.".
\<close>

theorem compose_no_active_alerts:
  assumes "fetchAlerts (getStateCode state) = OkBody features"
    and "activeAlerts now (case features of None \<Rightarrow> [] | Some fs \<Rightarrow> fs) = []"
  shows "generateStateConditions fetchAlerts now state False
           = Inr (str ''Typical seasonal weather patterns expected. Monitor for changing conditions. '')
       \<and> generateStateConditions fetchAlerts now state False \<noteq> Inr (noHazards state)"
  using assms
  by (simp add: generateStateConditions_def generateStateConditions_try_def processAlerts_def
      alertSentences_def getSeasonalConditions_def noHazards_def str_def)

theorem compose_no_active_alerts_witness:
  "generateStateConditions (\<lambda>code. OkBody (Some [\<lparr>event = str ''Flood Watch'', severity = str ''Minor'', expires = Some 3\<rparr>])) 7 (str ''Georgia'') False
           = Inr (str ''Typical seasonal weather patterns expected. Monitor for changing conditions. '')"
  using compose_no_active_alerts [of "\<lambda>code. OkBody (Some [\<lparr>event = str ''Flood Watch'', severity = str ''Minor'', expires = Some 3\<rparr>])"
     "str ''Georgia''" "Some [\<lparr>event = str ''Flood Watch'', severity = str ''Minor'', expires = Some 3\<rparr>]" 7]
  by (simp add: activeAlerts_def isActive_def)

text \<open>
  C2, as the claim states it, fails: for Florida with no alert at all and outside the hot
  season the result is the seasonal sentence, not the sentence naming Florida.
\<close>

theorem compose_no_active_alerts_counterexample:
  "processAlerts 0 (str ''Florida'') [] False
     = str ''Typical seasonal weather patterns expected. Monitor for changing conditions. ''
   \<and> processAlerts 0 (str ''Florida'') [] False \<noteq> noHazards (str ''Florida'')"
  by (simp add: processAlerts_def activeAlerts_def alertSentences_def getSeasonalConditions_def
      noHazards_def str_def)

section \<open>Properties of the tropical outlook resolver\<close>

lemma getTropicalOutlook_returns: "\<exists>t. getTropicalOutlook src month = Inr t"
  by (simp add: getTropicalOutlook_def getTropicalOutlook_try_def split: option.split)

lemma fetchWeatherConditions_returns: "\<exists>weatherData. fetchWeatherConditions w = Inr weatherData"
proof -
  obtain t where "getTropicalOutlook (w_tropical w) (w_month w) = Inr t"
    using getTropicalOutlook_returns by blast
  then show ?thesis
    by (simp add: fetchWeatherConditions_def fetchWeatherConditions_try_def Let_def)
qed

lemma getTropicalOutlook_part001_returns:
  "\<exists>r. getTropicalOutlook_part001 src now month = Inr r"
  by (simp add: getTropicalOutlook_part001_def getTropicalOutlook_part001_try_def
      split: option.split sum.split)

lemma nothing_to_parse:
  "parseNWSTropicalOutlook (Some (str ''No products are available.'')) = None"
  "extractTropicalFromAFD (Some (str ''No products are available.'')) = None"
  "extractTropicalFromMarine (Some (str ''No products are available.'')) = None"
  by (simp_all add: parseNWSTropicalOutlook_def extractTropicalFromAFD_def
      extractTropicalFromMarine_def mentions_def lowerAscii_def str_def)

lemma expired_alert_null:
  "processTropicalAlerts now [\<lparr>t_event = e, t_areaDesc = a, t_expires = Some now\<rparr>] = None"
  by (simp add: processTropicalAlerts_def)

text \<open>
  C5. Whatever its three sources give (a rejected request, a response that is not \<open>ok\<close>,
  an unreadable body or any body), \<open>getTropicalOutlook\<close> of \<open>update-weather.js\<close> ends
  with a tropical outlook and not with an error; so does \<open>fetchWeatherConditions\<close>,
  which awaits it. \<open>getTropicalOutlook\<close> of \<open>part_001\<close> does not end with an error
  either, but its result can be \<open>null\<close>: when the product of the first source has no
  line on tropical weather, and when the first source gives nothing and every alert of
  the second source has expired, the function returns the \<open>null\<close> of its helper and
  tries no other source. The third and the fourth source go on after such a \<open>null\<close>:
  with the same product text they reach the fallback of the season.
\<close>

theorem tropical_outlook_part001_null:
  "(\<exists>t. getTropicalOutlook src month = Inr t)
   \<and> (\<exists>weatherData. fetchWeatherConditions w = Inr weatherData)
   \<and> (\<exists>r. getTropicalOutlook_part001 src1 now month = Inr r)
   \<and> getTropicalOutlook_part001
        (src1\<lparr>twoProducts := \<lparr>listing = OkBody (Some [productId]),
                  product = \<lambda>productId. OkBody (Some (str ''No products are available.''))\<rparr>\<rparr>)
        now month = Inr None
   \<and> getTropicalOutlook_part001
        (src1\<lparr>twoProducts := \<lparr>listing = NotOk, product = p\<rparr>,
               tropicalAlerts := OkBody (Some [\<lparr>t_event = str ''Hurricane Warning'',
                 t_areaDesc = str ''Monroe Upper Keys'', t_expires = Some now\<rparr>])\<rparr>)
        now month = Inr None
   \<and> getTropicalOutlook_part001
        \<lparr>twoProducts = \<lparr>listing = NotOk, product = p\<rparr>,
         tropicalAlerts = NotOk,
         miamiAFD = \<lparr>listing = OkBody (Some [productId]),
                  product = \<lambda>productId. OkBody (Some (str ''No products are available.''))\<rparr>,
         highSeas = \<lparr>listing = OkBody (Some [productId]),
                  product = \<lambda>productId. OkBody (Some (str ''No products are available.''))\<rparr>\<rparr>
        now 0
       = Inr (Some \<lparr>outlook = str ''Outside of peak hurricane season. No significant tropical activity expected in the Atlantic basin at this time.'',
                    formation_chance = str ''0%''\<rparr>)"
proof -
  have c: "getTropicalOutlook_part001
        (src1\<lparr>twoProducts := \<lparr>listing = OkBody (Some [productId]),
                  product = \<lambda>productId. OkBody (Some (str ''No products are available.''))\<rparr>\<rparr>)
        now month = Inr None"
    by (simp add: getTropicalOutlook_part001_def getTropicalOutlook_part001_try_def
        twoProducts_try_def productText_try_def nothing_to_parse)
  have d: "getTropicalOutlook_part001
        (src1\<lparr>twoProducts := \<lparr>listing = NotOk, product = p\<rparr>,
               tropicalAlerts := OkBody (Some [\<lparr>t_event = str ''Hurricane Warning'',
                 t_areaDesc = str ''Monroe Upper Keys'', t_expires = Some now\<rparr>])\<rparr>)
        now month = Inr None"
    by (simp add: getTropicalOutlook_part001_def getTropicalOutlook_part001_try_def
        twoProducts_try_def productText_try_def tropicalAlerts_try_def expired_alert_null)
  have e: "getTropicalOutlook_part001
        \<lparr>twoProducts = \<lparr>listing = NotOk, product = p\<rparr>,
         tropicalAlerts = NotOk,
         miamiAFD = \<lparr>listing = OkBody (Some [productId]),
                  product = \<lambda>productId. OkBody (Some (str ''No products are available.''))\<rparr>,
         highSeas = \<lparr>listing = OkBody (Some [productId]),
                  product = \<lambda>productId. OkBody (Some (str ''No products are available.''))\<rparr>\<rparr>
        now 0
       = Inr (Some \<lparr>outlook = str ''Outside of peak hurricane season. No significant tropical activity expected in the Atlantic basin at this time.'',
                    formation_chance = str ''0%''\<rparr>)"
    by (simp add: getTropicalOutlook_part001_def getTropicalOutlook_part001_try_def
        twoProducts_try_def productText_try_def tropicalAlerts_try_def miamiAFD_try_def
        highSeas_try_def nothing_to_parse seasonFallback_part001_def isHurricaneSeason_def)
  show ?thesis
    using getTropicalOutlook_returns fetchWeatherConditions_returns
      getTropicalOutlook_part001_returns c d e by blast
qed

lemma caught_nhcJson_failed: "failed r \<Longrightarrow> caught (nhcJson_try r) = None"
  by (cases r) (simp_all add: nhcJson_try_def)

lemma caught_nhcRss_failed: "failed r \<Longrightarrow> caught (nhcRss_try r) = None"
  by (cases r) (simp_all add: nhcRss_try_def)

lemma caught_currentStorms_failed: "failed r \<Longrightarrow> caught (currentStorms_try r) = None"
  by (cases r) (simp_all add: currentStorms_try_def)

lemma all_failed_fallback:
  assumes "failed (nhcJson src)" "failed (nhcRss src)" "failed (currentStorms src)"
  shows "getTropicalOutlook src month = Inr (seasonFallback month)"
  using assms by (simp add: getTropicalOutlook_def getTropicalOutlook_try_def caught_nhcJson_failed
      caught_nhcRss_failed caught_currentStorms_failed)







lemma Max_insert_max:
  "finite S \<Longrightarrow> Max (insert (max m x) S) = Max (insert m (insert x S))"
  by (cases "S = {}") (simp_all add: max.assoc)

lemma foldl_areaStep:
  "0 \<le> m2 \<Longrightarrow> 0 \<le> m7 \<Longrightarrow> foldl areaStep (m2, m7, t) areas
     = (Max (insert m2 ((\<lambda>a. fieldChance (chance2day a)) ` set areas)),
        Max (insert m7 ((\<lambda>a. fieldChance (chance7day a)) ` set areas)),
        snd (snd (foldl areaStep (m2, m7, t) areas)))"
proof (induction areas arbitrary: m2 m7 t)
  case Nil
  then show ?case by simp
next
  case (Cons a areas)
  obtain n2 n7 u where st: "areaStep (m2, m7, t) a = (n2, n7, u)"
    by (cases "areaStep (m2, m7, t) a") auto
  have n2: "n2 = max m2 (fieldChance (chance2day a))"
    using st Cons.prems by (auto simp: fieldChance_def split: option.splits)
  have n7: "n7 = max m7 (fieldChance (chance7day a))"
    using st Cons.prems by (auto simp: fieldChance_def split: option.splits)
  have "foldl areaStep (m2, m7, t) (a # areas) = foldl areaStep (n2, n7, u) areas"
    by (simp add: st del: areaStep.simps)
  moreover have "Max (insert n2 ((\<lambda>a. fieldChance (chance2day a)) ` set areas))
      = Max (insert m2 ((\<lambda>a. fieldChance (chance2day a)) ` set (a # areas)))"
    unfolding n2 by (simp add: Max_insert_max)
  moreover have "Max (insert n7 ((\<lambda>a. fieldChance (chance7day a)) ` set areas))
      = Max (insert m7 ((\<lambda>a. fieldChance (chance7day a)) ` set (a # areas)))"
    unfolding n7 by (simp add: Max_insert_max)
  moreover have "0 \<le> n2" "0 \<le> n7" using n2 n7 Cons.prems by simp_all
  ultimately show ?case using Cons.IH [of n2 n7 u] by simp
qed

lemma foldl_areaStep_part000:
  "0 \<le> m \<Longrightarrow> fst (foldl areaStep_part000 (m, t, k) (enumerate i areas))
     = Max (insert m ((\<lambda>a. max (fieldChance (chance7day a)) (fieldChance (chance2day a))) ` set areas))"
proof (induction areas arbitrary: m t k i)
  case Nil
  then show ?case by simp
next
  case (Cons a areas)
  obtain n u j where st: "areaStep_part000 (m, t, k) (i, a) = (n, u, j)"
    by (cases "areaStep_part000 (m, t, k) (i, a)") auto
  have n: "n = max m (max (fieldChance (chance7day a)) (fieldChance (chance2day a)))"
    using st Cons.prems by (auto simp: fieldChance_def Let_def split: option.splits)
  have "foldl areaStep_part000 (m, t, k) (enumerate i (a # areas))
          = foldl areaStep_part000 (n, u, j) (enumerate (Suc i) areas)"
    by (simp add: st del: areaStep_part000.simps)
  moreover have "Max (insert n ((\<lambda>a. max (fieldChance (chance7day a)) (fieldChance (chance2day a))) ` set areas))
      = Max (insert m ((\<lambda>a. max (fieldChance (chance7day a)) (fieldChance (chance2day a))) ` set (a # areas)))"
    unfolding n by (simp add: Max_insert_max)
  moreover have "0 \<le> n" using n Cons.prems by simp
  ultimately show ?case using Cons.IH [of n u j "Suc i"] by simp
qed

text \<open>
  C1, as the script has it. For a response of the structured source with a non-empty list
  of areas (every field missing or an exact string), \<open>getTropicalOutlook\<close> of
  \<open>update-weather.js\<close> returns as formation chance the greatest 7-day probability of the
  areas when that is positive, otherwise the greatest 2-day probability when that is
  positive, otherwise \<open>0%\<close>: the two fields are not compared with each other. That is
  the maximum over all areas and both fields whenever no area has a 2-day probability
  above its 7-day probability. The copy \<open>part_000\<close> takes one maximum over both fields,
  and its structured source gives a result only when that maximum is positive.
\<close>

theorem structured_formation_chance:
  assumes "areas \<noteq> []"
    and "\<forall>a\<in>set areas. exactField (chance2day a) \<and> exactField (chance7day a)"
  shows "(\<exists>t. getTropicalOutlook (src\<lparr>nhcJson := OkBody (Some areas)\<rparr>) month = Inr t
          \<and> formation_chance t =
             (if Max (insert 0 ((\<lambda>a. fieldChance (chance7day a)) ` set areas)) > 0
              then numToString (Max (insert 0 ((\<lambda>a. fieldChance (chance7day a)) ` set areas))) @ str ''%''
              else if Max (insert 0 ((\<lambda>a. fieldChance (chance2day a)) ` set areas)) > 0
              then numToString (Max (insert 0 ((\<lambda>a. fieldChance (chance2day a)) ` set areas))) @ str ''%''
              else str ''0%'')
          \<and> ((\<forall>a\<in>set areas. fieldChance (chance2day a) \<le> fieldChance (chance7day a)) \<longrightarrow>
               formation_chance t =
                 (if Max (insert 0 ((\<lambda>a. max (fieldChance (chance7day a)) (fieldChance (chance2day a))) ` set areas)) > 0
                  then numToString (Max (insert 0 ((\<lambda>a. max (fieldChance (chance7day a)) (fieldChance (chance2day a))) ` set areas))) @ str ''%''
                  else str ''0%'')))
     \<and> (if Max (insert 0 ((\<lambda>a. max (fieldChance (chance7day a)) (fieldChance (chance2day a))) ` set areas)) > 0
         then \<exists>t. structuredOutlook_part000 areas = Some t
               \<and> formation_chance t
                  = numToString (Max (insert 0 ((\<lambda>a. max (fieldChance (chance7day a)) (fieldChance (chance2day a))) ` set areas))) @ str ''%''
         else structuredOutlook_part000 areas = None)"
proof -
  obtain m2 m7 otext where f: "foldl areaStep (0, 0, []) areas = (m2, m7, otext)"
    by (cases "foldl areaStep (0, 0, []) areas") auto
  have m: "m2 = Max (insert 0 ((\<lambda>a. fieldChance (chance2day a)) ` set areas))"
      "m7 = Max (insert 0 ((\<lambda>a. fieldChance (chance7day a)) ` set areas))"
    using foldl_areaStep [of 0 0 "[]" areas] f by simp_all
  have one: "getTropicalOutlook (src\<lparr>nhcJson := OkBody (Some areas)\<rparr>) month
      = Inr (structuredOutlook areas)"
    using assms(1)
    by (simp add: getTropicalOutlook_def getTropicalOutlook_try_def nhcJson_try_def)
  have two: "formation_chance (structuredOutlook areas) = formationChance m2 m7"
    by (simp add: structuredOutlook_def f)
  obtain n u j where g: "foldl areaStep_part000 (0, [], 0) (enumerate 0 areas) = (n, u, j)"
    by (cases "foldl areaStep_part000 (0, [], 0) (enumerate 0 areas)") auto
  have n: "n = Max (insert 0 ((\<lambda>a. max (fieldChance (chance7day a)) (fieldChance (chance2day a))) ` set areas))"
    using foldl_areaStep_part000 [of 0 "[]" 0 0 areas] g by simp
  have three: "if n > 0 then \<exists>t. structuredOutlook_part000 areas = Some t
               \<and> formation_chance t = numToString n @ str ''%''
         else structuredOutlook_part000 areas = None"
    by (simp add: structuredOutlook_part000_def g)
  have four: "(\<lambda>a. max (fieldChance (chance7day a)) (fieldChance (chance2day a))) ` set areas
      = (\<lambda>a. fieldChance (chance7day a)) ` set areas"
    if "\<forall>a\<in>set areas. fieldChance (chance2day a) \<le> fieldChance (chance7day a)"
    using that by (intro image_cong) (simp_all add: max_absorb1)
  have five: "m2 \<le> m7"
    if "\<forall>a\<in>set areas. fieldChance (chance2day a) \<le> fieldChance (chance7day a)"
    unfolding m using that by (subst Max_le_iff) (auto intro: Max_ge_iff [THEN iffD2])
  have six: "formationChance m2 m7 = (if m7 > 0 then numToString m7 @ str ''%'' else str ''0%'')"
    if "\<forall>a\<in>set areas. fieldChance (chance2day a) \<le> fieldChance (chance7day a)"
    using five [OF that] by (simp add: formationChance_def)
  show ?thesis
  proof (intro conjI)
    show "\<exists>t. getTropicalOutlook (src\<lparr>nhcJson := OkBody (Some areas)\<rparr>) month = Inr t
          \<and> formation_chance t =
             (if Max (insert 0 ((\<lambda>a. fieldChance (chance7day a)) ` set areas)) > 0
              then numToString (Max (insert 0 ((\<lambda>a. fieldChance (chance7day a)) ` set areas))) @ str ''%''
              else if Max (insert 0 ((\<lambda>a. fieldChance (chance2day a)) ` set areas)) > 0
              then numToString (Max (insert 0 ((\<lambda>a. fieldChance (chance2day a)) ` set areas))) @ str ''%''
              else str ''0%'')
          \<and> ((\<forall>a\<in>set areas. fieldChance (chance2day a) \<le> fieldChance (chance7day a)) \<longrightarrow>
               formation_chance t =
                 (if Max (insert 0 ((\<lambda>a. max (fieldChance (chance7day a)) (fieldChance (chance2day a))) ` set areas)) > 0
                  then numToString (Max (insert 0 ((\<lambda>a. max (fieldChance (chance7day a)) (fieldChance (chance2day a))) ` set areas))) @ str ''%''
                  else str ''0%''))"
    proof (intro exI conjI impI)
      show "getTropicalOutlook (src\<lparr>nhcJson := OkBody (Some areas)\<rparr>) month
          = Inr (structuredOutlook areas)"
        by (rule one)
      show "formation_chance (structuredOutlook areas) =
             (if Max (insert 0 ((\<lambda>a. fieldChance (chance7day a)) ` set areas)) > 0
              then numToString (Max (insert 0 ((\<lambda>a. fieldChance (chance7day a)) ` set areas))) @ str ''%''
              else if Max (insert 0 ((\<lambda>a. fieldChance (chance2day a)) ` set areas)) > 0
              then numToString (Max (insert 0 ((\<lambda>a. fieldChance (chance2day a)) ` set areas))) @ str ''%''
              else str ''0%'')"
        using two unfolding m formationChance_def by simp
      assume le: "\<forall>a\<in>set areas. fieldChance (chance2day a) \<le> fieldChance (chance7day a)"
      show "formation_chance (structuredOutlook areas) =
                 (if Max (insert 0 ((\<lambda>a. max (fieldChance (chance7day a)) (fieldChance (chance2day a))) ` set areas)) > 0
                  then numToString (Max (insert 0 ((\<lambda>a. max (fieldChance (chance7day a)) (fieldChance (chance2day a))) ` set areas))) @ str ''%''
                  else str ''0%'')"
        using two six [OF le] unfolding four [OF le] m by simp
    qed
    show "if Max (insert 0 ((\<lambda>a. max (fieldChance (chance7day a)) (fieldChance (chance2day a))) ` set areas)) > 0
         then \<exists>t. structuredOutlook_part000 areas = Some t
               \<and> formation_chance t
                  = numToString (Max (insert 0 ((\<lambda>a. max (fieldChance (chance7day a)) (fieldChance (chance2day a))) ` set areas))) @ str ''%''
         else structuredOutlook_part000 areas = None"
      using three unfolding n .
  qed
qed

text \<open>
  C1, as the claim states it, fails: for the areas \<open>[{chance7day: "40%"}, {chance2day:
  "70%"}]\<close> the formation chance is \<open>40%\<close>, not \<open>70%\<close>. (The copy \<open>part_000\<close>
  gives \<open>70%\<close> there.)
\<close>

theorem structured_formation_chance_counterexample:
  "getTropicalOutlook
     \<lparr>nhcJson = OkBody (Some [\<lparr>chance2day = None, chance7day = Some (str ''40%''), area_text = None\<rparr>,
                              \<lparr>chance2day = Some (str ''70%''), chance7day = None, area_text = None\<rparr>]),
      nhcRss = FetchFails, currentStorms = FetchFails\<rparr> 6
   = Inr \<lparr>outlook = str ''The National Hurricane Center is monitoring the Atlantic basin for tropical development.'',
          formation_chance = str ''40%''\<rparr>
   \<and> map_option formation_chance
        (structuredOutlook_part000
           [\<lparr>chance2day = None, chance7day = Some (str ''40%''), area_text = None\<rparr>,
            \<lparr>chance2day = Some (str ''70%''), chance7day = None, area_text = None\<rparr>])
      = Some (str ''70%'')"
  by (simp add: getTropicalOutlook_def getTropicalOutlook_try_def nhcJson_try_def
      structuredOutlook_def structuredOutlook_part000_def formationChance_def chanceOf_def
      parseInt_def Let_def numToString_def isRadixDigit_def digitValue_def is_ws_def
      is_line_terminator_def trim_def str_def)

theorem structured_formation_chance_witness:
  "(\<exists>t. getTropicalOutlook
     \<lparr>nhcJson = OkBody (Some [\<lparr>chance2day = Some (str ''20%''), chance7day = Some (str ''60%''), area_text = None\<rparr>]),
      nhcRss = FetchFails, currentStorms = FetchFails\<rparr> 6 = Inr t \<and> formation_chance t = str ''60%'')
   \<and> (\<exists>t. structuredOutlook_part000 [\<lparr>chance2day = Some (str ''20%''), chance7day = Some (str ''60%''), area_text = None\<rparr>] = Some t
         \<and> formation_chance t = str ''60%'')"
proof -
  have c: "chanceOf (str ''20%'') = 20" "chanceOf (str ''60%'') = 60"
    by (simp_all add: chanceOf_def parseInt_def Let_def isRadixDigit_def digitValue_def
        is_ws_def is_line_terminator_def str_def)
  have d: "numToString 60 = str ''60''"
    by (simp add: numToString_def str_def)
  have e: "str ''20%'' \<noteq> []" "str ''60%'' \<noteq> []" by (simp_all add: str_def)
  show ?thesis
    using structured_formation_chance [of
        "[\<lparr>chance2day = Some (str ''20%''), chance7day = Some (str ''60%''), area_text = None\<rparr>]"
        "\<lparr>nhcJson = FetchFails, nhcRss = FetchFails, currentStorms = FetchFails\<rparr>" 6]
    by (simp add: exactField_def fieldChance_def c d e) (simp add: str_def)
qed

section \<open>Properties of the report renderer\<close>

lemma foldl_stateStep:
  "foldl (stateStep wd) report states
     = report @ concat (map (\<lambda>state. stateReport state (highlight (the (conditions wd state))))
                        (filter (\<lambda>state. truthy (conditions wd state)) states))"
proof (induction states arbitrary: report)
  case Nil
  then show ?case by simp
next
  case (Cons state states)
  have "foldl (stateStep wd) report (state # states)
          = foldl (stateStep wd) (stateStep wd report state) states"
    by simp
  also have "\<dots> = stateStep wd report state
      @ concat (map (\<lambda>state. stateReport state (highlight (the (conditions wd state))))
                        (filter (\<lambda>state. truthy (conditions wd state)) states))"
    by (rule Cons.IH)
  also have "\<dots> = report @ concat (map (\<lambda>state. stateReport state (highlight (the (conditions wd state))))
                        (filter (\<lambda>state. truthy (conditions wd state)) (state # states)))"
    by (cases "conditions wd state") (simp_all add: stateStep_def)
  finally show ?case .
qed

lemma fallback_nonempty: "generateFallbackConditions state hot \<noteq> []"
  by (simp add: generateFallbackConditions_def str_def)

lemma foldl_map_upd:
  "foldl (\<lambda>m k. m(k \<mapsto> f k)) m0 ks k = (if k \<in> set ks then Some (f k) else m0 k)"
  by (induction ks arbitrary: m0 rule: rev_induct) auto

lemma fetched_conditions:
  assumes "fetchWeatherConditions w = Inr weatherData"
  shows "conditions weatherData state
    = (if state \<in> set (map fst WEATHER_OFFICES) then Some (stateConditions w state) else None)"
proof -
  obtain t where t: "getTropicalOutlook (w_tropical w) (w_month w) = Inr t"
    using getTropicalOutlook_returns by blast
  have "weatherData = \<lparr>conditions = foldl (\<lambda>m state. m(state \<mapsto> stateConditions w state)) Map.empty
                   (map fst WEATHER_OFFICES), tropical = Some t\<rparr>"
    using assms t by (simp add: fetchWeatherConditions_def fetchWeatherConditions_try_def Let_def)
  then show ?thesis by (simp only: weather_data.simps foldl_map_upd)
qed

lemma all_states_fallback:
  assumes "fetchWeatherConditions (w\<lparr>w_alerts := \<lambda>code. FetchFails\<rparr>) = Inr weatherData"
  shows "generateReport weatherData timeLabel startDate endDate
        = reportHeader weatherData (timeLabel @ str '' EDT'') startDate endDate
          @ concat (map (\<lambda>state. stateReport state
                           (highlight (generateFallbackConditions state (isHotSeason (w_month w)))))
                     (map fst WEATHER_OFFICES))
          @ reportFooter"
proof -
  have c: "conditions weatherData state
      = Some (generateFallbackConditions state (isHotSeason (w_month w)))"
    if "state \<in> set (map fst WEATHER_OFFICES)" for state
    using fetched_conditions [OF assms, of state] that
    by (simp add: stateConditions_def generateStateConditions_def generateStateConditions_try_def)
  have f: "filter (\<lambda>state. truthy (conditions weatherData state)) (map fst WEATHER_OFFICES)
      = map fst WEATHER_OFFICES"
    using c by (auto simp: fallback_nonempty filter_id_conv)
  have m: "map (\<lambda>state. stateReport state (highlight (the (conditions weatherData state))))
             (map fst WEATHER_OFFICES)
      = map (\<lambda>state. stateReport state
                           (highlight (generateFallbackConditions state (isHotSeason (w_month w)))))
             (map fst WEATHER_OFFICES)"
    using c by (intro map_cong) simp_all
  show ?thesis
    by (simp only: generateReport_def foldl_stateStep append_assoc f m)
qed

section \<open>Properties of the highlighting\<close>

lemma startsWith_iff: "startsWith s p \<longleftrightarrow> (\<exists>r. s = p @ r)"
  by (induction s p rule: startsWith.induct) auto


lemma clash_not_startsWith: "clash t w \<Longrightarrow> \<not> startsWith (w @ x) t"
  by (induction t w rule: clash.induct) auto

lemma clash_sym: "clash t w \<Longrightarrow> clash w t"
  by (induction t w rule: clash.induct) auto


lemma replaceAll_Nil: "replaceAll t r [] = []"
  by (simp add: replaceAll_def)

lemma replaceAll_Cons:
  "t \<noteq> [] \<Longrightarrow> replaceAll t r (c # cs) =
     (if startsWith (c # cs) t then r @ replaceAll t r (drop (length t) (c # cs))
      else c # replaceAll t r cs)"
  by (simp add: replaceAll_def literalAt_def)

lemma replaceAll_pass:
  "t \<noteq> [] \<Longrightarrow> blocks t u \<Longrightarrow> replaceAll t r (u @ x) = u @ replaceAll t r x"
proof (induction u)
  case Nil
  then show ?case by simp
next
  case (Cons c u)
  have "\<not> startsWith (c # u @ x) t"
    using Cons.prems(2) clash_not_startsWith [of t "c # u" x] by simp
  then show ?case using Cons by (simp add: replaceAll_Cons del: startsWith.simps)
qed

lemma scan_pass:
  "\<forall>rule\<in>set rules. blocks (fst rule) u \<Longrightarrow> scan rules (u @ x) = u @ scan rules x"
proof (induction u)
  case Nil
  then show ?case by simp
next
  case (Cons c u)
  have "\<not> startsWith (c # u @ x) (fst rule)" if "rule \<in> set rules" for rule
    using that Cons.prems clash_not_startsWith [of "fst rule" "c # u" x] by auto
  then have "find (\<lambda>rule. fst rule \<noteq> [] \<and> startsWith (c # u @ x) (fst rule)) rules = None"
    by (auto simp: find_None_iff simp del: startsWith.simps)
  then show ?case using Cons by simp
qed

lemma startsWith_scan:
  "\<forall>rule\<in>set rules. snd rule \<noteq> [] \<and> hd (snd rule) \<notin> set w \<Longrightarrow>
     startsWith (scan rules u) w \<Longrightarrow> startsWith u w"
proof (induction w arbitrary: u)
  case Nil
  then show ?case by simp
next
  case (Cons x w)
  show ?case
  proof (cases u)
    case Nil
    then show ?thesis using Cons.prems by simp
  next
    case (Cons d u')
    show ?thesis
    proof (cases "find (\<lambda>rule. fst rule \<noteq> [] \<and> startsWith (d # u') (fst rule)) rules")
      case None
      then have "scan rules u = d # scan rules u'" using Cons by simp
      then show ?thesis using Cons.prems Cons.IH [of u'] Cons by auto
    next
      case (Some rule)
      then have in_rules: "rule \<in> set rules" by (auto simp: find_Some_iff)
      then obtain h r' where r: "snd rule = h # r'" and h: "h \<noteq> x"
        using Cons.prems(1) by (cases "snd rule") auto
      have "scan rules u = (h # r') @ scan rules (drop (length (fst rule)) (d # u'))"
        using Some Cons r by simp
      then show ?thesis using Cons.prems(2) h by simp
    qed
  qed
qed

lemma find_append_rules:
  "find P (xs @ ys) = (case find P xs of None \<Rightarrow> find P ys | Some x \<Rightarrow> Some x)"
  by (induction xs) auto

lemma startsWith_drop: "startsWith s p \<Longrightarrow> s = p @ drop (length p) s"
  by (auto simp: startsWith_iff)

text \<open>Adding one rule after a simultaneous pass is the simultaneous pass with the rule added last.\<close>

lemma replaceAll_scan:
  assumes t: "t \<noteq> []" and compat: "\<forall>old\<in>set rules. compatible (t, r) old"
  shows "replaceAll t r (scan rules s) = scan (rules @ [(t, r)]) s"
proof (induction "length s" arbitrary: s rule: less_induct)
  case less
  show ?case
  proof (cases s)
    case Nil
    then show ?thesis by (simp add: replaceAll_Nil)
  next
    case (Cons c cs)
    let ?P = "\<lambda>rule. fst rule \<noteq> [] \<and> startsWith (c # cs) (fst rule)"
    show ?thesis
    proof (cases "find ?P rules")
      case (Some rule)
      then have mem: "rule \<in> set rules" and ne: "fst rule \<noteq> []"
        by (auto simp: find_Some_iff)
      have b: "blocks t (snd rule)" using compat mem by (auto simp: compatible_def)
      have shorter: "length (drop (length (fst rule)) (c # cs)) < length s"
        using ne Cons by simp
      have "replaceAll t r (scan rules s)
          = snd rule @ replaceAll t r (scan rules (drop (length (fst rule)) (c # cs)))"
        using Some Cons by (simp add: replaceAll_pass [OF t b])
      also have "\<dots> = snd rule @ scan (rules @ [(t, r)]) (drop (length (fst rule)) (c # cs))"
        using less [OF shorter] by simp
      also have "\<dots> = scan (rules @ [(t, r)]) s"
        using Some Cons by (simp add: find_append_rules)
      finally show ?thesis .
    next
      case None
      show ?thesis
      proof (cases "startsWith (c # cs) t")
        case True
        then have dec: "c # cs = t @ drop (length t) (c # cs)" by (rule startsWith_drop)
        have bl: "\<forall>rule\<in>set rules. blocks (fst rule) t"
          using compat by (auto simp: compatible_def)
        have shorter: "length (drop (length t) (c # cs)) < length s" using t Cons by simp
        have "scan rules s = t @ scan rules (drop (length t) (c # cs))"
          using scan_pass [OF bl, of "drop (length t) (c # cs)"] dec Cons by simp
        moreover obtain x t' where tx: "t = x # t'" using t by (cases t) auto
        ultimately have "replaceAll t r (scan rules s)
              = r @ replaceAll t r (scan rules (drop (length t) (c # cs)))"
          using replaceAll_Cons [OF t, of r x "t' @ scan rules (drop (length t) (c # cs))"]
          by (simp add: startsWith_iff)
        also have "\<dots> = r @ scan (rules @ [(t, r)]) (drop (length t) (c # cs))"
          using less [OF shorter] by simp
        also have "\<dots> = scan (rules @ [(t, r)]) s"
          using None True t Cons by (simp add: find_append_rules)
        finally show ?thesis .
      next
        case False
        obtain x t' where tx: "t = x # t'" using t by (cases t) auto
        have hd: "\<forall>rule\<in>set rules. snd rule \<noteq> [] \<and> hd (snd rule) \<notin> set t'"
          using compat tx by (auto simp: compatible_def)
        have no: "\<not> startsWith (c # scan rules cs) t"
        proof
          assume "startsWith (c # scan rules cs) t"
          then have "c = x" and "startsWith (scan rules cs) t'" using tx by simp_all
          then have "startsWith cs t'" using startsWith_scan [OF hd] by blast
          then show False using False tx \<open>c = x\<close> by simp
        qed
        have "replaceAll t r (scan rules s) = c # replaceAll t r (scan rules cs)"
          using None Cons no by (simp add: replaceAll_Cons [OF t] del: startsWith.simps)
        also have "\<dots> = c # scan (rules @ [(t, r)]) cs"
          using less [of cs] Cons by simp
        also have "\<dots> = scan (rules @ [(t, r)]) s"
          using None False Cons by (simp add: find_append_rules)
        finally show ?thesis .
      qed
    qed
  qed
qed

lemma applyRules_snoc: "applyRules (rules @ [(t, r)]) s = replaceAll t r (applyRules rules s)"
  by (simp add: applyRules_def)

lemma applyRules_scan:
  "distinct rules \<Longrightarrow> \<forall>x\<in>set rules. \<forall>y\<in>set rules. x \<noteq> y \<longrightarrow> compatible x y \<Longrightarrow>
     \<forall>x\<in>set rules. fst x \<noteq> [] \<Longrightarrow> applyRules rules s = scan rules s"
proof (induction rules arbitrary: s rule: rev_induct)
  case Nil
  show ?case by (induction s) (simp_all add: applyRules_def)
next
  case (snoc x rules)
  obtain t r where x: "x = (t, r)" by (cases x)
  have "applyRules rules s = scan rules s" for s
    using snoc.IH snoc.prems by auto
  moreover have "\<forall>old\<in>set rules. compatible (t, r) old"
    using snoc.prems x by auto
  moreover have "t \<noteq> []" using snoc.prems x by auto
  ultimately show ?case by (simp add: x applyRules_snoc replaceAll_scan)
qed

lemma highlightRules_compatible:
  "\<forall>x\<in>set highlightRules. \<forall>y\<in>set highlightRules. x \<noteq> y \<longrightarrow> compatible x y"
  by (simp add: highlightRules_def compatible_def str_def)

lemma highlightRules_self:
  "\<forall>x\<in>set highlightRules. fst x \<noteq> [] \<and> snd x \<noteq> [] \<and> blocks (fst x) (tl (fst x))"
  by (simp add: highlightRules_def str_def)

lemma highlightRules_distinct: "distinct highlightRules"
  by (simp add: highlightRules_def str_def)







lemma highlight_scan: "highlight s = scan highlightRules s"
  using applyRules_scan [OF highlightRules_distinct highlightRules_compatible, of s]
    highlightRules_self by (simp add: highlight_def)





lemma countOcc_pass: "blocks p u \<Longrightarrow> countOcc p (u @ x) = countOcc p x"
proof (induction u)
  case Nil
  then show ?case by simp
next
  case (Cons c u)
  have "\<not> startsWith (c # u @ x) p"
    using Cons.prems clash_not_startsWith [of p "c # u" x] by simp
  then show ?case using Cons by (simp del: startsWith.simps)
qed

lemma countOcc_at: "p \<noteq> [] \<Longrightarrow> blocks p (tl p @ u) \<Longrightarrow> countOcc p (p @ u @ x) = 1 + countOcc p x"
proof -
  assume p: "p \<noteq> []" and b: "blocks p (tl p @ u)"
  obtain c q where q: "p = c # q" using p by (cases p) auto
  have "countOcc p (p @ u @ x) = 1 + countOcc p ((q @ u) @ x)"
    unfolding q by (simp add: startsWith_iff del: startsWith.simps)
  also have "countOcc p ((q @ u) @ x) = countOcc p x"
    using b q by (intro countOcc_pass) simp
  finally show ?thesis .
qed










section \<open>Properties of the rendered report\<close>

lemma clash_append: "clash t s \<Longrightarrow> clash t (s @ v)"
  by (induction t s rule: clash.induct) auto

lemma clash_longer: "clash p w \<Longrightarrow> clash (p @ r) w"
  using clash_sym clash_append by blast

lemma blocks_append: "blocks t u \<Longrightarrow> blocks t v \<Longrightarrow> blocks t (u @ v)"
  by (induction u) (auto simp del: clash.simps dest: clash_append)

lemma blocks_longer: "blocks p u \<Longrightarrow> blocks (p @ r) u"
  by (induction u) (auto simp: clash_longer simp del: clash.simps)

lemma blocks_without_head: "t \<noteq> [] \<Longrightarrow> hd t \<notin> set u \<Longrightarrow> blocks t u"
  by (induction u) (cases t; auto)+

text \<open>
  A literal that starts with a code unit the string does not have, and that cannot start
  inside a replacement, cannot start anywhere in the result of the simultaneous pass.
\<close>

lemma blocks_scan:
  assumes "t \<noteq> []" and "\<forall>rule\<in>set rules. blocks t (snd rule)"
  shows "hd t \<notin> set s \<Longrightarrow> blocks t (scan rules s)"
proof (induction "length s" arbitrary: s rule: less_induct)
  case less
  show ?case
  proof (cases s)
    case Nil
    then show ?thesis by simp
  next
    case (Cons c cs)
    show ?thesis
    proof (cases "find (\<lambda>rule. fst rule \<noteq> [] \<and> startsWith (c # cs) (fst rule)) rules")
      case None
      have "hd t \<notin> set cs" using less.prems Cons by simp
      then have "blocks t (scan rules cs)" using less.hyps [of cs] Cons by simp
      moreover have "clash t (c # scan rules cs)"
        using assms(1) less.prems Cons by (cases t) auto
      ultimately show ?thesis using None Cons by simp
    next
      case (Some rule)
      then have mem: "rule \<in> set rules" and ne: "fst rule \<noteq> []"
        by (auto simp: find_Some_iff)
      have "hd t \<notin> set (drop (length (fst rule)) (c # cs))"
        using less.prems Cons by (metis in_set_dropD)
      moreover have "length (drop (length (fst rule)) (c # cs)) < length s" using ne Cons by simp
      ultimately have "blocks t (scan rules (drop (length (fst rule)) (c # cs)))"
        using less.hyps by blast
      then have "blocks t (snd rule @ scan rules (drop (length (fst rule)) (c # cs)))"
        using assms(2) mem blocks_append by blast
      then show ?thesis using Some Cons by simp
    qed
  qed
qed

lemma block_highlight: "60 \<notin> set c \<Longrightarrow> blocks stateBlockOpen (highlight c)"
  unfolding highlight_scan
  by (rule blocks_scan) (simp_all add: stateBlockOpen_def highlightRules_def str_def)

lemma block_header:
  assumes "60 \<notin> set checkTime" "60 \<notin> set startDate" "60 \<notin> set endDate"
    "60 \<notin> set (tropicalOutlookText wd)" "60 \<notin> set (tropicalFormationChance wd)"
  shows "blocks stateBlockOpen (reportHeader wd checkTime startDate endDate)"
  unfolding reportHeader_def
  by (intro blocks_append) (simp_all add: blocks_without_head assms stateBlockOpen_def str_def)

lemma block_footer: "blocks stateBlockOpen reportFooter"
  unfolding reportFooter_def
  by (intro blocks_append) (simp_all add: stateBlockOpen_def str_def)

lemma block_line:
  assumes "60 \<notin> set state" and "60 \<notin> set c"
  shows "countOcc stateBlockOpen (stateReport state (highlight c) @ x)
     = 1 + countOcc stateBlockOpen x"
proof -
  have lit: \<open>str ''                <div class="state-report">\<newline>''
      = str ''                '' @ stateBlockOpen @ str ''\<newline>''\<close>
    by (simp add: stateBlockOpen_def str_def)
  define u where \<open>u = str ''\<newline>''
      @ str ''                    <span class="state-name">''
      @ state
      @ str '':</span> \<newline>''
      @ str ''                    <span class="state-conditions">''
      @ highlight c
      @ str ''</span>\<newline>''
      @ str ''                </div>\<newline>''
      @ str ''            ''\<close>
  have s: "stateReport state (highlight c) @ x
      = (str ''\<newline>'' @ str ''                '') @ stateBlockOpen @ u @ x"
    by (simp add: stateReport_def lit u_def)
  have a: "blocks stateBlockOpen (str ''\<newline>'' @ str ''                '')"
    by (simp add: stateBlockOpen_def str_def)
  have "blocks stateBlockOpen u"
    unfolding u_def
    by (intro blocks_append block_highlight assms(2))
      (simp_all add: blocks_without_head assms(1) stateBlockOpen_def str_def)
  moreover have "blocks stateBlockOpen (tl stateBlockOpen)"
    by (simp add: stateBlockOpen_def str_def)
  ultimately have b: "blocks stateBlockOpen (tl stateBlockOpen @ u)"
    by (rule blocks_append [rotated])
  have ne: "stateBlockOpen \<noteq> []" by (simp add: stateBlockOpen_def str_def)
  show ?thesis
    unfolding s using countOcc_pass [OF a] countOcc_at [OF ne b] by simp
qed

lemma block_lines:
  "\<forall>state\<in>set states. 60 \<notin> set state \<and> 60 \<notin> set (cond state) \<Longrightarrow>
     countOcc stateBlockOpen
         (concat (map (\<lambda>state. stateReport state (highlight (cond state))) states) @ x)
       = length states + countOcc stateBlockOpen x"
  by (induction states) (simp_all add: block_line)

lemma catalog_names_plain: "\<forall>state\<in>set (map fst WEATHER_OFFICES). 60 \<notin> set state"
  by (simp add: WEATHER_OFFICES_def str_def)

lemma name_highlight: "60 \<notin> set c \<Longrightarrow> blocks (stateNameTag state) (highlight c)"
  unfolding highlight_scan
  by (rule blocks_scan) (simp_all add: stateNameTag_def highlightRules_def str_def blocks_longer)

lemma name_header:
  assumes "60 \<notin> set checkTime" "60 \<notin> set startDate" "60 \<notin> set endDate"
    "60 \<notin> set (tropicalOutlookText wd)" "60 \<notin> set (tropicalFormationChance wd)"
  shows "blocks (stateNameTag state) (reportHeader wd checkTime startDate endDate)"
  unfolding reportHeader_def stateNameTag_def
  by (intro blocks_append blocks_longer) (simp_all add: blocks_without_head assms str_def)

lemma name_footer: "blocks (stateNameTag state) reportFooter"
  unfolding reportFooter_def stateNameTag_def
  by (intro blocks_append blocks_longer) (simp_all add: str_def)

lemma name_line_start:
  \<open>\<forall>state\<in>set (map fst WEATHER_OFFICES). \<forall>other\<in>set (map fst WEATHER_OFFICES).
     blocks (stateNameTag state)
       (str ''\<newline>'' @ str ''                <div class="state-report">\<newline>''
         @ str ''                    '')
     \<and> blocks (stateNameTag state) (tl (stateNameTag state))
     \<and> (state \<noteq> other \<longrightarrow> blocks (stateNameTag state) (stateNameTag other))\<close>
  by (simp add: WEATHER_OFFICES_def stateNameTag_def str_def)

lemma name_line_end:
  assumes "60 \<notin> set c"
  shows \<open>blocks (stateNameTag state)
       (str '' \<newline>''
        @ str ''                    <span class="state-conditions">''
        @ highlight c
        @ str ''</span>\<newline>''
        @ str ''                </div>\<newline>''
        @ str ''            '')\<close>
  by (intro blocks_append name_highlight assms)
    (simp_all add: stateNameTag_def str_def blocks_longer)

lemma stateReport_split:
  \<open>stateReport state stateCondition
     = (str ''\<newline>'' @ str ''                <div class="state-report">\<newline>''
         @ str ''                    '')
       @ stateNameTag state
       @ (str '' \<newline>''
        @ str ''                    <span class="state-conditions">''
        @ stateCondition
        @ str ''</span>\<newline>''
        @ str ''                </div>\<newline>''
        @ str ''            '')\<close>
  by (simp add: stateReport_def stateNameTag_def str_def)

lemma name_line:
  assumes "state \<in> set (map fst WEATHER_OFFICES)" and "other \<in> set (map fst WEATHER_OFFICES)"
    and "60 \<notin> set c"
  shows "countOcc (stateNameTag state) (stateReport other (highlight c) @ x)
     = (if state = other then 1 else 0) + countOcc (stateNameTag state) x"
proof -
  let ?a = \<open>str ''\<newline>'' @ str ''                <div class="state-report">\<newline>''
         @ str ''                    ''\<close>
  let ?b = \<open>str '' \<newline>''
        @ str ''                    <span class="state-conditions">''
        @ highlight c
        @ str ''</span>\<newline>''
        @ str ''                </div>\<newline>''
        @ str ''            ''\<close>
  have a: "blocks (stateNameTag state) ?a"
    and t: "blocks (stateNameTag state) (tl (stateNameTag state))"
    and o: "state \<noteq> other \<Longrightarrow> blocks (stateNameTag state) (stateNameTag other)"
    using name_line_start assms(1,2) by blast+
  have b: "blocks (stateNameTag state) ?b" using assms(3) by (rule name_line_end)
  have ne: "stateNameTag state \<noteq> []" by (simp add: stateNameTag_def str_def)
  have s: "stateReport other (highlight c) @ x = ?a @ stateNameTag other @ ?b @ x"
    using stateReport_split [of other "highlight c"] by simp
  show ?thesis
  proof (cases "state = other")
    case True
    have "blocks (stateNameTag state) (tl (stateNameTag state) @ ?b)"
      using t b by (rule blocks_append)
    then show ?thesis
      unfolding s using True countOcc_pass [OF a] countOcc_at [OF ne, of ?b x] by simp
  next
    case False
    have "blocks (stateNameTag state) (?a @ stateNameTag other @ ?b)"
      by (rule blocks_append [OF a blocks_append [OF o [OF False] b]])
    then have "countOcc (stateNameTag state) ((?a @ stateNameTag other @ ?b) @ x)
        = countOcc (stateNameTag state) x"
      by (rule countOcc_pass)
    then show ?thesis unfolding s using False by simp
  qed
qed

lemma name_lines:
  assumes "state \<in> set (map fst WEATHER_OFFICES)"
  shows "set states \<subseteq> set (map fst WEATHER_OFFICES) \<Longrightarrow> distinct states \<Longrightarrow>
     \<forall>other\<in>set states. 60 \<notin> set (cond other) \<Longrightarrow>
     countOcc (stateNameTag state)
         (concat (map (\<lambda>other. stateReport other (highlight (cond other))) states) @ x)
       = (if state \<in> set states then 1 else 0) + countOcc (stateNameTag state) x"
proof (induction states)
  case Nil
  then show ?case by simp
next
  case (Cons other states)
  then show ?case using name_line [OF assms, of other "cond other"] by auto
qed

text \<open>
  When no text from outside has a \<open><\<close>, the report opens as many state blocks as the
  catalog has states with a present, non-empty entry, and names each of these states in
  exactly one block, and no other catalog state.
\<close>

lemma report_blocks:
  assumes "60 \<notin> set timeLabel" "60 \<notin> set startDate" "60 \<notin> set endDate"
    "60 \<notin> set (tropicalOutlookText wd)" "60 \<notin> set (tropicalFormationChance wd)"
    and c: "\<forall>state\<in>set (map fst WEATHER_OFFICES). \<forall>c. conditions wd state = Some c \<longrightarrow> 60 \<notin> set c"
  shows "countOcc stateBlockOpen (generateReport wd timeLabel startDate endDate)
       = length (filter (\<lambda>state. truthy (conditions wd state)) (map fst WEATHER_OFFICES))"
    and "state \<in> set (map fst WEATHER_OFFICES) \<Longrightarrow>
       countOcc (stateNameTag state) (generateReport wd timeLabel startDate endDate)
         = (if truthy (conditions wd state) then 1 else 0)"
proof -
  let ?present = "filter (\<lambda>state. truthy (conditions wd state)) (map fst WEATHER_OFFICES)"
  have edt: "60 \<notin> set (timeLabel @ str '' EDT'')" using assms(1) by (simp add: str_def)
  have h: "blocks stateBlockOpen (reportHeader wd (timeLabel @ str '' EDT'') startDate endDate)"
    using edt assms(2-5) by (rule block_header)
  have hn: "blocks (stateNameTag st) (reportHeader wd (timeLabel @ str '' EDT'') startDate endDate)" for st
    using edt assms(2-5) by (rule name_header)
  have p: "\<forall>state\<in>set ?present. 60 \<notin> set state \<and> 60 \<notin> set (the (conditions wd state))"
  proof
    fix state assume s: "state \<in> set ?present"
    then have "60 \<notin> set state" using catalog_names_plain by auto
    moreover obtain c where "conditions wd state = Some c"
      using s by (cases "conditions wd state") auto
    ultimately show "60 \<notin> set state \<and> 60 \<notin> set (the (conditions wd state))"
      using c s by auto
  qed
  have f: "countOcc stateBlockOpen reportFooter = 0"
    using countOcc_pass [OF block_footer, of "[]"] by (simp add: stateBlockOpen_def str_def)
  have fn: "countOcc (stateNameTag st) reportFooter = 0" for st
    using countOcc_pass [OF name_footer, of st "[]"] by (simp add: stateNameTag_def str_def)
  have r: "generateReport wd timeLabel startDate endDate
      = reportHeader wd (timeLabel @ str '' EDT'') startDate endDate
        @ concat (map (\<lambda>state. stateReport state (highlight (the (conditions wd state)))) ?present)
        @ reportFooter"
    by (simp only: generateReport_def foldl_stateStep append_assoc)
  show "countOcc stateBlockOpen (generateReport wd timeLabel startDate endDate) = length ?present"
    unfolding r using countOcc_pass [OF h] block_lines [OF p] f by simp
  have d: "distinct ?present" by (simp add: WEATHER_OFFICES_def str_def)
  have sub: "set ?present \<subseteq> set (map fst WEATHER_OFFICES)" by auto
  have p2: "\<forall>state\<in>set ?present. 60 \<notin> set (the (conditions wd state))" using p by blast
  show "countOcc (stateNameTag state) (generateReport wd timeLabel startDate endDate)
         = (if truthy (conditions wd state) then 1 else 0)"
    if "state \<in> set (map fst WEATHER_OFFICES)"
    unfolding r using countOcc_pass [OF hn] name_lines [OF that sub d p2] fn that by simp
qed

lemma fallback_plain: "60 \<notin> set state \<Longrightarrow> 60 \<notin> set (generateFallbackConditions state hot)"
  by (simp add: generateFallbackConditions_def str_def)

lemma fetched_tropical:
  assumes "fetchWeatherConditions w = Inr weatherData"
  shows "getTropicalOutlook (w_tropical w) (w_month w) = Inr t \<Longrightarrow> tropical weatherData = Some t"
  using assms by (auto simp: fetchWeatherConditions_def fetchWeatherConditions_try_def Let_def)

text \<open>
  C10. For every state name, so for the eight of the catalog, and both season flags, the
  fallback conditions are not empty and start with the opening sentence of the season.
  The report is its header, then for each catalog state whose entry is present and not
  empty, in catalog order, one block with the name of the state and its highlighted
  conditions, then its footer. When every request for alerts fails, the fetched entries
  are the fallback conditions, and the report has the block of each of the eight states.
  When no text from outside has a \<open><\<close>, the number of state blocks that the report
  opens is the number of catalog states with such an entry, and each catalog state is
  named by one block when it has one and by none otherwise.
\<close>

theorem fallback_opening_and_state_lines:
  \<open>generateFallbackConditions state hot \<noteq> []
   \<and> startsWith (generateFallbackConditions state hot)
        (if hot
         then str ''Hot and humid conditions with ADVISORIES for heat index values near or above 100''
                @ [176] @ str ''F. ''
         else str ''Seasonal temperatures expected for '' @ state @ str ''. '')
   \<and> generateReport weatherData timeLabel startDate endDate
        = reportHeader weatherData (timeLabel @ str '' EDT'') startDate endDate
          @ concat (map (\<lambda>state.
                str ''\<newline>''
                @ str ''                <div class="state-report">\<newline>''
                @ str ''                    <span class="state-name">'' @ state @ str '':</span> \<newline>''
                @ str ''                    <span class="state-conditions">''
                @ highlight (the (conditions weatherData state)) @ str ''</span>\<newline>''
                @ str ''                </div>\<newline>''
                @ str ''            '')
              (filter (\<lambda>state. truthy (conditions weatherData state)) (map fst WEATHER_OFFICES)))
          @ reportFooter
   \<and> map fst WEATHER_OFFICES
        = [str ''Tennessee'', str ''Mississippi'', str ''Alabama'', str ''Georgia'',
           str ''Florida'', str ''North Carolina'', str ''South Carolina'',
           str ''U.S. Virgin Islands'']
   \<and> (\<exists>fetched. fetchWeatherConditions (w\<lparr>w_alerts := \<lambda>code. FetchFails\<rparr>) = Inr fetched
        \<and> generateReport fetched timeLabel startDate endDate
            = reportHeader fetched (timeLabel @ str '' EDT'') startDate endDate
              @ concat (map (\<lambda>state.
                    str ''\<newline>''
                    @ str ''                <div class="state-report">\<newline>''
                    @ str ''                    <span class="state-name">'' @ state @ str '':</span> \<newline>''
                    @ str ''                    <span class="state-conditions">''
                    @ highlight (generateFallbackConditions state (isHotSeason (w_month w)))
                    @ str ''</span>\<newline>''
                    @ str ''                </div>\<newline>''
                    @ str ''            '')
                  (map fst WEATHER_OFFICES))
              @ reportFooter)
   \<and> (60 \<notin> set timeLabel \<and> 60 \<notin> set startDate \<and> 60 \<notin> set endDate
        \<and> 60 \<notin> set (tropicalOutlookText weatherData)
        \<and> 60 \<notin> set (tropicalFormationChance weatherData)
        \<and> (\<forall>state\<in>set (map fst WEATHER_OFFICES). \<forall>c.
              conditions weatherData state = Some c \<longrightarrow> 60 \<notin> set c)
      \<longrightarrow> countOcc (str ''<div class="state-report">'')
              (generateReport weatherData timeLabel startDate endDate)
            = length (filter (\<lambda>state. truthy (conditions weatherData state))
                        (map fst WEATHER_OFFICES))
          \<and> (\<forall>state\<in>set (map fst WEATHER_OFFICES).
                countOcc (str ''<span class="state-name">'' @ state @ str '':</span>'')
                  (generateReport weatherData timeLabel startDate endDate)
                = (if truthy (conditions weatherData state) then 1 else 0)))\<close>
proof -
  have a: "startsWith (generateFallbackConditions state hot)
        (if hot
         then str ''Hot and humid conditions with ADVISORIES for heat index values near or above 100''
                @ [176] @ str ''F. ''
         else str ''Seasonal temperatures expected for '' @ state @ str ''. '')"
    using startsWith_append [of "str ''Hot and humid conditions with ADVISORIES for heat index values near or above 100'' @ [176] @ str ''F. ''"]
      startsWith_append [of "str ''Seasonal temperatures expected for '' @ state @ str ''. ''"]
    by (simp add: generateFallbackConditions_def del: startsWith.simps)
  have b: "generateReport weatherData timeLabel startDate endDate
        = reportHeader weatherData (timeLabel @ str '' EDT'') startDate endDate
          @ concat (map (\<lambda>state. stateReport state (highlight (the (conditions weatherData state))))
                     (filter (\<lambda>state. truthy (conditions weatherData state)) (map fst WEATHER_OFFICES)))
          @ reportFooter"
    by (simp only: generateReport_def foldl_stateStep append_assoc)
  have c: "map fst WEATHER_OFFICES = [str ''Tennessee'', str ''Mississippi'', str ''Alabama'', str ''Georgia'',
                      str ''Florida'', str ''North Carolina'', str ''South Carolina'',
                      str ''U.S. Virgin Islands'']"
    by (simp add: WEATHER_OFFICES_def)
  obtain fetched where d: "fetchWeatherConditions (w\<lparr>w_alerts := \<lambda>code. FetchFails\<rparr>) = Inr fetched"
    using fetchWeatherConditions_returns by blast
  have e: "(60 \<notin> set timeLabel \<and> 60 \<notin> set startDate \<and> 60 \<notin> set endDate
        \<and> 60 \<notin> set (tropicalOutlookText weatherData)
        \<and> 60 \<notin> set (tropicalFormationChance weatherData)
        \<and> (\<forall>state\<in>set (map fst WEATHER_OFFICES). \<forall>c.
              conditions weatherData state = Some c \<longrightarrow> 60 \<notin> set c)
      \<longrightarrow> countOcc stateBlockOpen (generateReport weatherData timeLabel startDate endDate)
            = length (filter (\<lambda>state. truthy (conditions weatherData state))
                        (map fst WEATHER_OFFICES))
          \<and> (\<forall>state\<in>set (map fst WEATHER_OFFICES).
                countOcc (stateNameTag state)
                  (generateReport weatherData timeLabel startDate endDate)
                = (if truthy (conditions weatherData state) then 1 else 0)))"
    using report_blocks [of timeLabel startDate endDate weatherData] by blast
  show ?thesis
    using fallback_nonempty a b c d all_states_fallback [OF d] e
    unfolding stateReport_def stateBlockOpen_def stateNameTag_def append_assoc
    by blast
qed

theorem fallback_opening_and_state_lines_witness:
  \<open>\<exists>fetched.
     fetchWeatherConditions
       \<lparr>w_month = 6, w_now = 0, w_alerts = (\<lambda>code. FetchFails),
        w_tropical = \<lparr>nhcJson = FetchFails, nhcRss = FetchFails, currentStorms = FetchFails\<rparr>,
        w_timeLabel = str ''1:00 PM'', w_startDate = str ''Monday, July 6, 2026'',
        w_endDate = str ''Friday, July 10, 2026'', w_updateTime = str ''7/6/2026, 1:00:00 PM'',
        w_indexHtml = None, w_writable = False\<rparr> = Inr fetched
     \<and> countOcc (str ''<div class="state-report">'')
          (generateReport fetched (str ''1:00 PM'') (str ''Monday, July 6, 2026'')
             (str ''Friday, July 10, 2026'')) = 8
     \<and> countOcc (str ''<span class="state-name">Florida:</span>'')
          (generateReport fetched (str ''1:00 PM'') (str ''Monday, July 6, 2026'')
             (str ''Friday, July 10, 2026'')) = 1\<close>
proof -
  define world where "world =
       \<lparr>w_month = 6, w_now = 0, w_alerts = (\<lambda>code. FetchFails),
        w_tropical = \<lparr>nhcJson = FetchFails, nhcRss = FetchFails, currentStorms = FetchFails\<rparr>,
        w_timeLabel = str ''1:00 PM'', w_startDate = str ''Monday, July 6, 2026'',
        w_endDate = str ''Friday, July 10, 2026'', w_updateTime = str ''7/6/2026, 1:00:00 PM'',
        w_indexHtml = None, w_writable = False\<rparr>"
  obtain fetched where f: "fetchWeatherConditions world = Inr fetched"
    using fetchWeatherConditions_returns by blast
  have "getTropicalOutlook (w_tropical world) (w_month world) = Inr (seasonFallback 6)"
    by (simp add: world_def all_failed_fallback)
  then have t: "tropical fetched = Some (seasonFallback 6)"
    using f by (rule fetched_tropical [rotated])
  have cond: "conditions fetched state
      = (if state \<in> set (map fst WEATHER_OFFICES)
         then Some (generateFallbackConditions state True) else None)" for state
    using fetched_conditions [OF f, of state]
    by (simp add: world_def stateConditions_def generateStateConditions_def
        generateStateConditions_try_def isHotSeason_def)
  have h1: "60 \<notin> set (str ''1:00 PM'')" "60 \<notin> set (str ''Monday, July 6, 2026'')"
      "60 \<notin> set (str ''Friday, July 10, 2026'')"
    by (simp_all add: str_def)
  have h2: "60 \<notin> set (tropicalOutlookText fetched)" "60 \<notin> set (tropicalFormationChance fetched)"
    by (simp_all add: tropicalOutlookText_def tropicalFormationChance_def t seasonFallback_def
        isHurricaneSeason_def str_def)
  have h3: "\<forall>state\<in>set (map fst WEATHER_OFFICES). \<forall>c.
              conditions fetched state = Some c \<longrightarrow> 60 \<notin> set c"
    using catalog_names_plain by (auto simp: cond fallback_plain)
  have all: "filter (\<lambda>state. truthy (conditions fetched state)) (map fst WEATHER_OFFICES)
      = map fst WEATHER_OFFICES"
    by (auto simp: cond fallback_nonempty filter_id_conv)
  have len: "length (map fst WEATHER_OFFICES) = 8" by (simp add: WEATHER_OFFICES_def)
  have fl: "str ''Florida'' \<in> set (map fst WEATHER_OFFICES)" by (simp add: WEATHER_OFFICES_def)
  have tag: \<open>str ''<span class="state-name">'' @ str ''Florida'' @ str '':</span>''
      = str ''<span class="state-name">Florida:</span>''\<close>
    by (simp add: str_def)
  note counted = fallback_opening_and_state_lines [of "str ''Florida''" True fetched
      "str ''1:00 PM''" "str ''Monday, July 6, 2026''" "str ''Friday, July 10, 2026''" world,
      THEN conjunct2, THEN conjunct2, THEN conjunct2, THEN conjunct2, THEN conjunct2, THEN mp]
  have k: \<open>countOcc (str ''<div class="state-report">'')
              (generateReport fetched (str ''1:00 PM'') (str ''Monday, July 6, 2026'')
                 (str ''Friday, July 10, 2026''))
            = length (filter (\<lambda>state. truthy (conditions fetched state))
                        (map fst WEATHER_OFFICES))
          \<and> (\<forall>state\<in>set (map fst WEATHER_OFFICES).
                countOcc (str ''<span class="state-name">'' @ state @ str '':</span>'')
                  (generateReport fetched (str ''1:00 PM'') (str ''Monday, July 6, 2026'')
                     (str ''Friday, July 10, 2026''))
                = (if truthy (conditions fetched state) then 1 else 0))\<close>
    by (rule counted) (intro conjI h1 h2 h3)
  have one: \<open>countOcc (str ''<div class="state-report">'')
          (generateReport fetched (str ''1:00 PM'') (str ''Monday, July 6, 2026'')
             (str ''Friday, July 10, 2026'')) = 8\<close>
    using k all len by simp
  have \<open>countOcc (str ''<span class="state-name">'' @ str ''Florida'' @ str '':</span>'')
          (generateReport fetched (str ''1:00 PM'') (str ''Monday, July 6, 2026'')
             (str ''Friday, July 10, 2026''))
       = (if truthy (conditions fetched (str ''Florida'')) then 1 else 0)\<close>
    using k fl by blast
  then have two: \<open>countOcc (str ''<span class="state-name">Florida:</span>'')
          (generateReport fetched (str ''1:00 PM'') (str ''Monday, July 6, 2026'')
             (str ''Friday, July 10, 2026'')) = 1\<close>
    using fl by (simp add: tag cond fallback_nonempty del: set_map)
  show ?thesis using f one two unfolding world_def by blast
qed

section \<open>Properties of the file publisher\<close>









lemma firstMatch_absent:
  "\<not> includesStr s placeholderOpen \<Longrightarrow> firstMatch placeholderAt s = None"
proof (induction s)
  case Nil
  then show ?case by (simp add: placeholderAt_def)
next
  case (Cons c s)
  then show ?case by (simp add: placeholderAt_def del: startsWith.simps)
qed

lemma firstMatch_literal_absent:
  "\<not> includesStr s lit \<Longrightarrow> firstMatch (literalAt lit) s = None"
proof (induction s)
  case Nil
  then show ?case by (simp add: literalAt_def)
next
  case (Cons c s)
  then show ?case by (simp add: literalAt_def del: startsWith.simps)
qed

lemma replaceFirst_loading_absent:
  "\<not> includesStr s (str ''Loading...'') \<Longrightarrow> replaceFirst loadingAt r s = s"
proof -
  assume "\<not> includesStr s (str ''Loading...'')"
  then have "firstMatch (literalAt (str ''Loading...'')) s = None" by (rule firstMatch_literal_absent)
  moreover have "loadingAt = literalAt (str ''Loading...'')" by (rule ext) (simp add: loadingAt_def)
  ultimately show ?thesis by (simp add: replaceFirst_def)
qed

lemma replacePlaceholder_absent:
  "\<not> includesStr htmlTemplate placeholderOpen \<Longrightarrow> replacePlaceholder htmlTemplate reportHtml = htmlTemplate"
  by (simp add: replacePlaceholder_def replaceFirst_def firstMatch_absent)

lemma publish_without_marker:
  assumes "\<not> includesStr htmlTemplate placeholderOpen"
    and "w_indexHtml w = Some htmlTemplate" and "w_writable w"
  shows "updateHtmlFile w
     = Written (replaceFirst loadingAt (str ''Last Updated: '' @ w_updateTime w) htmlTemplate)"
proof -
  obtain weatherData where "fetchWeatherConditions w = Inr weatherData"
    using fetchWeatherConditions_returns by blast
  then show ?thesis
    using assms by (simp add: updateHtmlFile_def Let_def updatedHtml_def replacePlaceholder_absent)
qed

text \<open>
  C4, as the script has it. When the opening tag of the placeholder does not occur in the
  template (the file being readable and writable), the replacement of the placeholder
  returns the template as it is, and \<open>updateHtmlFile\<close> writes it back, with at most
  its first \<open>Loading...\<close> replaced, and does not exit with status 1.
\<close>

theorem missing_marker_is_silent:
  assumes "\<not> includesStr htmlTemplate placeholderOpen"
    and "w_indexHtml w = Some htmlTemplate" and "w_writable w"
  shows "replacePlaceholder htmlTemplate reportHtml = htmlTemplate
    \<and> updateHtmlFile w
        = Written (replaceFirst loadingAt (str ''Last Updated: '' @ w_updateTime w) htmlTemplate)
    \<and> updateHtmlFile w \<noteq> Exit1
    \<and> (\<not> includesStr htmlTemplate (str ''Loading...'') \<longrightarrow> updateHtmlFile w = Written htmlTemplate)"
  using publish_without_marker [OF assms] replacePlaceholder_absent [OF assms(1)]
  by (simp add: replaceFirst_loading_absent)

theorem missing_marker_is_silent_witness:
  "updateHtmlFile
     \<lparr>w_month = 6, w_now = 0, w_alerts = (\<lambda>code. FetchFails),
      w_tropical = \<lparr>nhcJson = FetchFails, nhcRss = FetchFails, currentStorms = FetchFails\<rparr>,
      w_timeLabel = str ''1:00 PM'', w_startDate = str ''Monday'', w_endDate = str ''Friday'',
      w_updateTime = str ''now'', w_indexHtml = Some (str ''<html></html>''), w_writable = True\<rparr>
   = Written (str ''<html></html>'')"
proof -
  have a: "\<not> includesStr (str ''<html></html>'') placeholderOpen"
    by (simp add: placeholderOpen_def str_def)
  have b: "\<not> includesStr (str ''<html></html>'') (str ''Loading...'')"
    by (simp add: str_def)
  have i: "w_indexHtml \<lparr>w_month = 6, w_now = 0, w_alerts = (\<lambda>code. FetchFails),
      w_tropical = \<lparr>nhcJson = FetchFails, nhcRss = FetchFails, currentStorms = FetchFails\<rparr>,
      w_timeLabel = str ''1:00 PM'', w_startDate = str ''Monday'', w_endDate = str ''Friday'',
      w_updateTime = str ''now'', w_indexHtml = Some (str ''<html></html>''), w_writable = True\<rparr>
      = Some (str ''<html></html>'')"
    by simp
  have j: "w_writable \<lparr>w_month = 6, w_now = 0, w_alerts = (\<lambda>code. FetchFails),
      w_tropical = \<lparr>nhcJson = FetchFails, nhcRss = FetchFails, currentStorms = FetchFails\<rparr>,
      w_timeLabel = str ''1:00 PM'', w_startDate = str ''Monday'', w_endDate = str ''Friday'',
      w_updateTime = str ''now'', w_indexHtml = Some (str ''<html></html>''), w_writable = True\<rparr>"
    by simp
  show ?thesis
    using missing_marker_is_silent [OF a i j, of "[]"] b by blast
qed

text \<open>
  C4, as the claim states it, fails: a template whose container has another id is written
  back, only its \<open>Loading...\<close> replaced, and the run ends as a success.
\<close>

theorem missing_marker_is_silent_counterexample:
  \<open>updateHtmlFile
     \<lparr>w_month = 0, w_now = 0, w_alerts = (\<lambda>code. NotOk),
      w_tropical = \<lparr>nhcJson = NotOk, nhcRss = NotOk, currentStorms = NotOk\<rparr>,
      w_timeLabel = str ''9:30 AM'', w_startDate = str ''Monday'', w_endDate = str ''Friday'',
      w_updateTime = str ''today'',
      w_indexHtml = Some (str ''<div id="report">Loading...</div>''), w_writable = True\<rparr>
   = Written (str ''<div id="report">Last Updated: today</div>'')\<close>
proof -
  have a: \<open>\<not> includesStr (str ''<div id="report">Loading...</div>'') placeholderOpen\<close>
    by (simp add: placeholderOpen_def str_def)
  have b: \<open>replaceFirst loadingAt (str ''Last Updated: '' @ str ''today'') (str ''<div id="report">Loading...</div>'')
      = str ''<div id="report">Last Updated: today</div>''\<close>
    by (simp add: replaceFirst_def loadingAt_def literalAt_def str_def)
  show ?thesis
    using publish_without_marker [OF a, of
      \<open>\<lparr>w_month = 0, w_now = 0, w_alerts = (\<lambda>code. NotOk),
      w_tropical = \<lparr>nhcJson = NotOk, nhcRss = NotOk, currentStorms = NotOk\<rparr>,
      w_timeLabel = str ''9:30 AM'', w_startDate = str ''Monday'', w_endDate = str ''Friday'',
      w_updateTime = str ''today'',
      w_indexHtml = Some (str ''<div id="report">Loading...</div>''), w_writable = True\<rparr>\<close>] b
    by simp
qed






































end
